theory Spec2Isabelle
  imports Complex_Main "HOL-Library.AList"
begin

section \<open>The deadline-aware eval/save supervisor\<close>



record DeadlineTracker =
  Deadline :: int
  SafetyMargin :: int

definition remaining :: "DeadlineTracker \<Rightarrow> int \<Rightarrow> int" where
  \<comment> \<open>Modelled from the spec: \<^verbatim>\<open>WhenToEvalHandler\<close> of \<^verbatim>\<open>customized_trainer\<close> is missing;
      "remaining(now) = Deadline - now, clamped at zero from below".\<close>
  "remaining d now = max 0 (Deadline d - now)"




section \<open>Python values, exceptions and the process's world\<close>

type_synonym path = string

text \<open>
  A value of a JSON or YAML document. A mapping is an association list: Python
  dictionaries keep insertion order, a new key goes to the end and an existing key keeps
  its place, which is what \<open>AList.update\<close> does.
\<close>

datatype yaml =
    YNull
  | YBool bool
  | YInt int
  | YFloat real
  | YStr string
  | YList "yaml list"
  | YDict "(string \<times> yaml) list"

type_synonym dict = "(string \<times> yaml) list"

text \<open>
  The exceptions the script can meet. Every one is a subclass of Python's \<open>Exception\<close>
  except \<open>SystemExit\<close> (raised by \<^verbatim>\<open>sys.exit\<close> and by the argument parser), which derives
  from \<open>BaseException\<close> only. \<open>SystemExit\<close> carries the exit status and the message
  written to standard error; the other constructors carry the exception's message.
  \<open>CollaboratorError\<close> is any exception raised inside a function that is imported from
  a module outside \<^verbatim>\<open>scripts/text_trainer.py\<close>.
\<close>

datatype error =
    OSError string
  | JSONDecodeError string
  | TypeError string
  | KeyError string
  | ValueError string
  | OverflowError string
  | CollaboratorError string
  | SystemExit nat string

fun is_Exception :: "error \<Rightarrow> bool" where
  "is_Exception (SystemExit status msg) = False"
| "is_Exception e = True"

fun str_error :: "error \<Rightarrow> string" where
  "str_error (OSError m) = m"
| "str_error (JSONDecodeError m) = m"
| "str_error (TypeError m) = m"
| "str_error (KeyError m) = m"
| "str_error (ValueError m) = m"
| "str_error (OverflowError m) = m"
| "str_error (CollaboratorError m) = m"
| "str_error (SystemExit status m) = m"

text \<open>
  The world a process acts on: the file system (a node per path), standard output (its
  state and the lines printed on it), and the configuration documents handed to
  \<^verbatim>\<open>save_config\<close>. The sets \<open>unreadable\<close> and \<open>unwritable\<close> are the paths on which the
  operating system refuses \<^verbatim>\<open>open(p, "r")\<close> and \<^verbatim>\<open>open(p, "w")\<close> or \<^verbatim>\<open>makedirs\<close>: they
  stand for every I/O failure on files (permissions, a full disk, a vanished parent
  directory). Standard output can be open, closed (\<^verbatim>\<open>sys.stdout.close()\<close>, a detached
  stream) or broken (a pipe whose reader has gone).
\<close>

datatype node = File string | Directory

datatype stream_state = StreamOpen | StreamClosed | StreamBroken

record world =
  nodes :: "path \<Rightarrow> node option"
  unreadable :: "path set"
  unwritable :: "path set"
  stdout_state :: stream_state
  stdout :: "string list"
  saved_configs :: "(path \<times> dict) list"

text \<open>
  A statement of the script is a function from the world to a result and the world it
  leaves: \<open>Inr\<close> a value when it returns, \<open>Inl\<close> the exception when it raises. The world
  is kept on a raise too, since what was written before the raise stays written.
\<close>

type_synonym 'a io = "world \<Rightarrow> (error + 'a) \<times> world"

definition io_return :: "'a \<Rightarrow> 'a io" where
  "io_return x w = (Inr x, w)"

definition io_raise :: "error \<Rightarrow> 'a io" where
  "io_raise e w = (Inl e, w)"

definition io_bind :: "'a io \<Rightarrow> ('a \<Rightarrow> 'b io) \<Rightarrow> 'b io" where
  "io_bind m f w = (case m w of (Inl e, w') \<Rightarrow> (Inl e, w') | (Inr x, w') \<Rightarrow> f x w')"

definition io_then :: "'a io \<Rightarrow> 'b io \<Rightarrow> 'b io" where
  "io_then m k = io_bind m (\<lambda>_. k)"

definition io_lift :: "error + 'a \<Rightarrow> 'a io" where
  "io_lift r w = (r, w)"

definition io_when :: "bool \<Rightarrow> unit io \<Rightarrow> unit io" where
  "io_when b m = (if b then m else io_return ())"

definition try_except_Exception :: "'a io \<Rightarrow> (error \<Rightarrow> 'a io) \<Rightarrow> 'a io" where
  \<comment> \<open>\<^verbatim>\<open>try: body  except Exception as e: handler\<close>\<close>
  "try_except_Exception body handler w =
     (case body w of
        (Inl e, w') \<Rightarrow> if is_Exception e then handler e w' else (Inl e, w')
      | (Inr x, w') \<Rightarrow> (Inr x, w'))"

definition print :: "string \<Rightarrow> unit io" where
  \<comment> \<open>\<^verbatim>\<open>print(line, flush=True)\<close>: on a closed stream the write raises \<open>ValueError\<close>, on a
      broken pipe the flush raises \<open>BrokenPipeError\<close>, an \<open>OSError\<close>.\<close>
  "print line w =
     (case stdout_state w of
        StreamOpen \<Rightarrow> (Inr (), w\<lparr>stdout := stdout w @ [line]\<rparr>)
      | StreamClosed \<Rightarrow> (Inl (ValueError ''I/O operation on closed file.''), w)
      | StreamBroken \<Rightarrow> (Inl (OSError ''Broken pipe''), w))"

definition os_path_exists :: "path \<Rightarrow> world \<Rightarrow> bool" where
  "os_path_exists p w = (nodes w p \<noteq> None)"

definition os_path_join :: "path \<Rightarrow> path \<Rightarrow> path" where
  "os_path_join a b =
     (if b \<noteq> [] \<and> hd b = CHR ''/'' then b
      else if a = [] \<or> last a = CHR ''/'' then a @ b
      else a @ ''/'' @ b)"

definition os_path_basename :: "path \<Rightarrow> string" where
  "os_path_basename p = rev (takeWhile (\<lambda>c. c \<noteq> CHR ''/'') (rev p))"

definition open_read :: "path \<Rightarrow> string io" where
  \<comment> \<open>\<^verbatim>\<open>with open(p, "r") as f: f.read()\<close>\<close>
  "open_read p w =
     (case nodes w p of
        None \<Rightarrow> (Inl (OSError (''No such file or directory: '' @ p)), w)
      | Some Directory \<Rightarrow> (Inl (OSError (''Is a directory: '' @ p)), w)
      | Some (File txt) \<Rightarrow>
          if p \<in> unreadable w then (Inl (OSError (''Permission denied: '' @ p)), w)
          else (Inr txt, w))"

definition open_write :: "path \<Rightarrow> string \<Rightarrow> unit io" where
  \<comment> \<open>\<^verbatim>\<open>with open(p, "w") as f: f.write(txt)\<close>, taken as all or nothing\<close>
  "open_write p txt w =
     (if nodes w p = Some Directory then (Inl (OSError (''Is a directory: '' @ p)), w)
      else if p \<in> unwritable w then (Inl (OSError (''Permission denied: '' @ p)), w)
      else (Inr (), w\<lparr>nodes := (nodes w)(p \<mapsto> File txt)\<rparr>))"

definition os_makedirs :: "path \<Rightarrow> unit io" where
  \<comment> \<open>\<^verbatim>\<open>os.makedirs(p, exist_ok=True)\<close>; the parents it creates on the way are not tracked.\<close>
  "os_makedirs p w =
     (case nodes w p of
        Some Directory \<Rightarrow> (Inr (), w)
      | Some (File txt) \<Rightarrow> (Inl (OSError (''File exists: '' @ p)), w)
      | None \<Rightarrow>
          if p \<in> unwritable w then (Inl (OSError (''Permission denied: '' @ p)), w)
          else (Inr (), w\<lparr>nodes := (nodes w)(p \<mapsto> Directory)\<rparr>))"

definition shutil_copy :: "path \<Rightarrow> path \<Rightarrow> unit io" where
  \<comment> \<open>\<^verbatim>\<open>shutil.copy(src, dst)\<close>: into the directory \<open>dst\<close> under the source's base name,
      or onto the file \<open>dst\<close>.\<close>
  "shutil_copy src dst =
     io_bind (open_read src) (\<lambda>txt w.
       if nodes w dst = Some Directory
       then open_write (os_path_join dst (os_path_basename src)) txt w
       else open_write dst txt w)"

definition setitem :: "yaml \<Rightarrow> string \<Rightarrow> yaml \<Rightarrow> error + yaml" where
  \<comment> \<open>\<^verbatim>\<open>obj[key] = value\<close> with a string key: only a mapping accepts it.\<close>
  "setitem obj k v =
     (case obj of
        YDict kvs \<Rightarrow> Inr (YDict (AList.update k v kvs))
      | _ \<Rightarrow> Inl (TypeError ''object does not support item assignment with a str key''))"

section \<open>The metadata patcher\<close>

fun readlines :: "string \<Rightarrow> string list" where
  \<comment> \<open>\<^verbatim>\<open>f.readlines()\<close>: the lines of the text, each with its line feed.\<close>
  "readlines [] = []"
| "readlines (c # cs) =
     (if c = CHR 0x0A then [c] # readlines cs
      else (case readlines cs of [] \<Rightarrow> [[c]] | l # ls \<Rightarrow> (c # l) # ls))"

definition is_space :: "char \<Rightarrow> bool" where
  \<comment> \<open>the ASCII characters \<^verbatim>\<open>str.strip()\<close> removes\<close>
  "is_space c = (c \<in> set [CHR '' '', CHR 0x09, CHR 0x0A, CHR 0x0B, CHR 0x0C, CHR 0x0D,
                            CHR 0x1C, CHR 0x1D, CHR 0x1E, CHR 0x1F])"

definition strip :: "string \<Rightarrow> string" where
  "strip s = rev (dropWhile is_space (rev (dropWhile is_space s)))"

definition startswith :: "string \<Rightarrow> string \<Rightarrow> bool" where
  "startswith s pre = (take (length pre) s = pre)"

text \<open>
  The two parsers of the standard library are parameters: \<open>json_loads\<close> returns the
  decoder's message on a malformed text, \<open>json_dumps\<close> renders a document
  (\<^verbatim>\<open>json.dump(config, f, indent=2)\<close>).
\<close>

record json_lib =
  json_loads :: "string \<Rightarrow> string + yaml"
  json_dumps :: "yaml \<Rightarrow> string"

definition json_load :: "json_lib \<Rightarrow> string \<Rightarrow> error + yaml" where
  "json_load js txt = (case json_loads js txt of Inl m \<Rightarrow> Inl (JSONDecodeError m) | Inr v \<Rightarrow> Inr v)"

definition patch_adapter_config :: "json_lib \<Rightarrow> path \<Rightarrow> string \<Rightarrow> unit io" where
  \<comment> \<open>lines 85 to 98 of \<^verbatim>\<open>patch_model_metadata\<close>\<close>
  "patch_adapter_config js output_dir base_model_id =
     (let adapter_config_path = os_path_join output_dir ''adapter_config.json'' in
      (\<lambda>w.
        if os_path_exists adapter_config_path w then
          io_bind (open_read adapter_config_path) (\<lambda>txt.
          io_bind (io_lift (json_load js txt)) (\<lambda>config.
          io_bind (io_lift (setitem config ''base_model_name_or_path'' (YStr base_model_id))) (\<lambda>config'.
          io_then (open_write adapter_config_path (json_dumps js config'))
                  (print (''Updated adapter_config.json with base_model: '' @ base_model_id))))) w
        else print '' adapter_config.json not found'' w))"

definition patch_readme_line :: "string \<Rightarrow> string \<Rightarrow> string" where
  "patch_readme_line base_model_id line =
     (if startswith (strip line) ''base_model:''
      then ''base_model: '' @ base_model_id @ [CHR 0x0A]
      else line)"

definition patch_readme :: "path \<Rightarrow> string \<Rightarrow> unit io" where
  \<comment> \<open>lines 100 to 118 of \<^verbatim>\<open>patch_model_metadata\<close>\<close>
  "patch_readme output_dir base_model_id =
     (let readme_path = os_path_join output_dir ''README.md'' in
      (\<lambda>w.
        if os_path_exists readme_path w then
          io_bind (open_read readme_path) (\<lambda>txt.
          io_then (open_write readme_path
                     (concat (map (patch_readme_line base_model_id) (readlines txt))))
                  (print (''Updated README.md with base_model: '' @ base_model_id))) w
        else print ''README.md not found'' w))"

definition patch_model_metadata_body :: "json_lib \<Rightarrow> path \<Rightarrow> string \<Rightarrow> unit io" where
  \<comment> \<open>the body of the \<^verbatim>\<open>try\<close> statement\<close>
  "patch_model_metadata_body js output_dir base_model_id =
     io_then (patch_adapter_config js output_dir base_model_id)
             (patch_readme output_dir base_model_id)"

definition patch_model_metadata :: "json_lib \<Rightarrow> path \<Rightarrow> string \<Rightarrow> unit io" where
  "patch_model_metadata js output_dir base_model_id =
     try_except_Exception
       (patch_model_metadata_body js output_dir base_model_id)
       (\<lambda>e. print (''Error updating metadata: '' @ str_error e))"

definition keeps_stdout_state :: "'a io \<Rightarrow> bool" where
  \<comment> \<open>the statement neither closes nor reopens standard output\<close>
  "keeps_stdout_state m = (\<forall>w r w'. m w = (r, w') \<longrightarrow> stdout_state w' = stdout_state w)"

definition raises_only_Exception :: "'a io \<Rightarrow> bool" where
  \<comment> \<open>every exception the statement can raise is caught by \<^verbatim>\<open>except Exception\<close>\<close>
  "raises_only_Exception m = (\<forall>w e w'. m w = (Inl e, w') \<longrightarrow> is_Exception e)"

section \<open>Task types, file formats and dataset types\<close>

datatype TaskType = INSTRUCTTEXTTASK | DPOTASK | GRPOTASK

fun TaskType_value :: "TaskType \<Rightarrow> string" where
  \<comment> \<open>Modelled from the spec: the enumeration \<^verbatim>\<open>TaskType\<close> of \<^verbatim>\<open>core.models.utility_models\<close>
      is missing; "task type (one of three fixed tags)", the tags being the three choices
      of \<^verbatim>\<open>--task-type\<close> in \<^verbatim>\<open>main\<close>.\<close>
  "TaskType_value INSTRUCTTEXTTASK = ''InstructTextTask''"
| "TaskType_value DPOTASK = ''DpoTask''"
| "TaskType_value GRPOTASK = ''GrpoTask''"

datatype FileFormat = CSV | JSON | HF | S3

fun FileFormat_value :: "FileFormat \<Rightarrow> string" where
  \<comment> \<open>Modelled from the spec: the enumeration \<^verbatim>\<open>FileFormat\<close> of \<^verbatim>\<open>core.models.utility_models\<close>
      is missing; "source file format (one of four fixed tags)", the tags being the four
      choices of \<^verbatim>\<open>--file-format\<close> in \<^verbatim>\<open>main\<close>.\<close>
  "FileFormat_value CSV = ''csv''"
| "FileFormat_value JSON = ''json''"
| "FileFormat_value HF = ''hf''"
| "FileFormat_value S3 = ''s3''"

definition FileFormat_of :: "string \<Rightarrow> error + FileFormat" where
  \<comment> \<open>\<^verbatim>\<open>FileFormat(file_format)\<close>: the member with that value, or \<open>ValueError\<close>\<close>
  "FileFormat_of s =
     (case filter (\<lambda>m. FileFormat_value m = s) [CSV, JSON, HF, S3] of
        [] \<Rightarrow> Inl (ValueError (s @ '' is not a valid FileFormat''))
      | m # _ \<Rightarrow> Inr m)"

text \<open>
  The three dataset-type records. The script reads one field only, the reward functions
  of the GRPO record, each with its source and its weight; the other fields stay in the
  validated mapping.
\<close>

record RewardFunction =
  reward_func :: string
  reward_weight :: real

datatype dataset_type =
    InstructTextDatasetType dict
  | DpoDatasetType dict
  | GrpoDatasetType "RewardFunction list" dict

text \<open>The task families of \<^verbatim>\<open>customized_config\<close>.\<close>

datatype task_family = INSTRUCT | DPO | GRPO

record tokenizer =
  pad_token_id :: "int option"
  eos_token_id :: "int option"
  eos_token :: "string option"

text \<open>
  The callbacks a \<^verbatim>\<open>Trainer\<close> is constructed with. The two the script installs carry
  the arguments of their constructor calls; the classes themselves are in
  \<^verbatim>\<open>customized_trainer\<close>. \<open>OtherCallback\<close> is a callback the external code passes in.
\<close>

datatype WhenToEvalHandler =
  WhenToEvalHandler (handler_end_time: string) (save_before_remaining_time: int)

datatype callback =
    CustomEvalSaveCallback WhenToEvalHandler path path string
  | GRPOCustomEvalSaveCallback WhenToEvalHandler path path string
  | OtherCallback string

section \<open>The command line\<close>

text \<open>
  \<^verbatim>\<open>main\<close> declares eight options, each taking one argument, and the parser adds the
  help option. The command line is modelled as the parser reads it: the sequence of
  arguments in the order in which it acts on them. \<open>Opt\<close> is an occurrence of one
  of the eight options with its argument string, however it was written; \<open>Help\<close> is
  \<^verbatim>\<open>-h\<close> or \<^verbatim>\<open>--help\<close>; \<open>Refused\<close> is an argument the parser rejects where it stands,
  with its reason (an option without its argument, an ambiguous abbreviation);
  \<open>Unrecognized\<close> is a string that belongs to no option.
\<close>

datatype option_dest =
    TASK_ID | MODEL | DATASET | DATASET_TYPE | TASK_TYPE | FILE_FORMAT | EXPECTED_REPO_NAME
  | HOURS_TO_COMPLETE

fun option_string :: "option_dest \<Rightarrow> string" where
  "option_string TASK_ID = ''--task-id''"
| "option_string MODEL = ''--model''"
| "option_string DATASET = ''--dataset''"
| "option_string DATASET_TYPE = ''--dataset-type''"
| "option_string TASK_TYPE = ''--task-type''"
| "option_string FILE_FORMAT = ''--file-format''"
| "option_string EXPECTED_REPO_NAME = ''--expected-repo-name''"
| "option_string HOURS_TO_COMPLETE = ''--hours-to-complete''"

datatype argument =
    Opt option_dest string
  | Help
  | Refused string
  | Unrecognized string

text \<open>
  The errors of the parser: the option, the value and the choices of an invalid choice;
  the option, the type and the value of a failed conversion; the required options that
  are missing; the unrecognized strings; the reason of a refusal. How an error reads on
  standard error (the usage line, the program name, the quoting) is the library's
  business: \<open>format_error\<close> below.
\<close>

datatype argparse_error =
    Invalid_choice string string "string list"
  | Invalid_value string string string
  | Required_missing "string list"
  | Unrecognized_arguments "string list"
  | Refused_argument string

section \<open>The collaborators outside the script\<close>

text \<open>
  Functions and constants the script imports from modules that are not among the sources
  are parameters of the model. A pure collaborator returns \<open>Inl\<close> the message of the
  exception it raises; one that acts on the file system is a statement. For the
  reward-function module, \<open>reward_module_name\<close> is the generated module's name for a
  task, \<open>reward_function_name\<close> the name under which the function generated from the
  source at a given index can be resolved, and \<open>reward_module_source\<close> the generated text.
  \<open>timedelta_hours\<close> is the duration in microseconds that \<^verbatim>\<open>timedelta(hours=h)\<close> holds
  for the float \<open>h\<close>. The training entry point \<open>do_cli\<close> acts on the world and constructs
  \<^verbatim>\<open>Trainer\<close> objects: its result lists, for each construction in order, the
  \<^verbatim>\<open>callbacks\<close> keyword argument it passes, when it passes one. Of the argument
  parser, \<open>float_of_string\<close> is the conversion \<^verbatim>\<open>float(s)\<close>, \<open>None\<close> when it raises
  \<open>ValueError\<close>; \<open>format_error\<close> is the text the parser writes for an error, and
  \<open>format_help\<close> its help text.
\<close>

record env =
  get_checkpoints_output_path :: "string \<Rightarrow> string option \<Rightarrow> path"
  get_axolotl_base_config_path :: "dataset_type \<Rightarrow> path"
  get_text_base_model_path :: "string \<Rightarrow> path"
  get_text_dataset_path :: "string \<Rightarrow> path"
  get_axolotl_dataset_paths :: "string \<Rightarrow> path \<times> path"
  AXOLOTL_DIRECTORIES :: "(string \<times> path) list"
  WANDB_LOGS_DIR :: path
  json :: json_lib
  yaml_safe_load :: "string \<Rightarrow> string + yaml"
  new_InstructTextDatasetType :: "dict \<Rightarrow> string + dict"
  new_DpoDatasetType :: "dict \<Rightarrow> string + dict"
  new_GrpoDatasetType :: "dict \<Rightarrow> string + RewardFunction list \<times> dict"
  create_dataset_entry :: "path \<Rightarrow> dataset_type \<Rightarrow> FileFormat \<Rightarrow> string + yaml"
  update_flash_attention :: "dict \<Rightarrow> string \<Rightarrow> string + dict"
  customize_config :: "dict \<Rightarrow> task_family \<Rightarrow> path \<Rightarrow> string \<Rightarrow> string + dict"
  AutoTokenizer_from_pretrained :: "path \<Rightarrow> string + tokenizer"
  reward_module_name :: "string \<Rightarrow> string"
  reward_function_name :: "nat \<Rightarrow> string \<Rightarrow> string"
  reward_module_source :: "string list \<Rightarrow> string"
  adapt_columns_for_dpo_dataset :: "path \<Rightarrow> dataset_type \<Rightarrow> unit io"
  adapt_columns_for_grpo_dataset :: "path \<Rightarrow> dataset_type \<Rightarrow> unit io"
  get_available_gpu_count :: nat
  dist_is_initialized :: "world \<Rightarrow> bool"
  dist_init_process_group :: "unit io"
  dist_barrier :: "unit io"
  timedelta_hours :: "real \<Rightarrow> int"
  do_cli :: "path \<Rightarrow> callback list option list io"
  float_of_string :: "string \<Rightarrow> real option"
  format_error :: "argparse_error \<Rightarrow> string"
  format_help :: string

definition call :: "string + 'a \<Rightarrow> 'a io" where
  \<comment> \<open>the call of a pure collaborator\<close>
  "call r = io_lift (case r of Inl m \<Rightarrow> Inl (CollaboratorError m) | Inr v \<Rightarrow> Inr v)"

definition getitem :: "(string \<times> 'a) list \<Rightarrow> string \<Rightarrow> error + 'a" where
  \<comment> \<open>\<^verbatim>\<open>d[key]\<close> on a dictionary\<close>
  "getitem d k = (case map_of d k of None \<Rightarrow> Inl (KeyError k) | Some v \<Rightarrow> Inr v)"

definition as_dict :: "yaml \<Rightarrow> error + dict" where
  \<comment> \<open>the mapping an item assignment with a string key needs\<close>
  "as_dict obj =
     (case obj of
        YDict kvs \<Rightarrow> Inr kvs
      | _ \<Rightarrow> Inl (TypeError ''object does not support item assignment with a str key''))"

definition str_of_optional :: "string option \<Rightarrow> string" where
  \<comment> \<open>how an f-string renders a value that may be \<open>None\<close>\<close>
  "str_of_optional s = (case s of None \<Rightarrow> ''None'' | Some t \<Rightarrow> t)"

definition yaml_of_optional :: "string option \<Rightarrow> yaml" where
  "yaml_of_optional s = (case s of None \<Rightarrow> YNull | Some t \<Rightarrow> YStr t)"

definition save_config :: "dict \<Rightarrow> path \<Rightarrow> unit io" where
  \<comment> \<open>Modelled from the spec: \<^verbatim>\<open>save_config\<close> of \<^verbatim>\<open>core.config.config_handler\<close> is missing;
      "Persist the final document under a path keyed by taskId". The world records the
      document as it is handed over, with its path.\<close>
  "save_config config config_path w =
     (if config_path \<in> unwritable w then (Inl (OSError (''Permission denied: '' @ config_path)), w)
      else (Inr (), w\<lparr>saved_configs := saved_configs w @ [(config_path, config)]\<rparr>))"

definition create_reward_funcs_file ::
  "env \<Rightarrow> string list \<Rightarrow> string \<Rightarrow> path \<Rightarrow> (string \<times> string list) io" where
  \<comment> \<open>Modelled from the spec: \<^verbatim>\<open>create_reward_funcs_file\<close> of \<^verbatim>\<open>miner.logic.job_handler\<close> is
      missing; "generate reward-function source from the supplied function bodies, write
      it to a fixed location", "a generated reward-function source module per run ...
      placed under a fixed shared source directory and referenced by generated name",
      one resolvable name for each supplied function, in the order supplied.\<close>
  "create_reward_funcs_file env reward_funcs task_id destination_dir =
     (let filename = reward_module_name env task_id in
      io_then
        (open_write (os_path_join destination_dir (filename @ ''.py''))
           (reward_module_source env reward_funcs))
        (io_return (filename,
           map (\<lambda>(i, src). reward_function_name env i src) (enumerate 0 reward_funcs))))"

section \<open>Building the configuration document: \<^verbatim>\<open>create_config\<close>\<close>

definition config_wandb :: "env \<Rightarrow> string \<Rightarrow> string option \<Rightarrow> bool \<Rightarrow> dict \<Rightarrow> dict io" where
  \<comment> \<open>lines 148 to 156\<close>
  "config_wandb env task_id expected_repo_name log_wandb config =
     (if log_wandb then
        (let run = task_id @ ''_'' @ str_of_optional expected_repo_name in
         io_then (os_makedirs (WANDB_LOGS_DIR env))
           (io_return
              (AList.update ''wandb_mode'' (YStr ''offline'')
                (AList.update ''wandb_name'' (YStr run)
                  (AList.update ''wandb_runid'' (YStr run) config)))))
      else io_return (filter (\<lambda>(key, v). \<not> startswith key ''wandb'') config))"

definition config_trl :: "string \<Rightarrow> string list \<Rightarrow> RewardFunction list \<Rightarrow> dict \<Rightarrow> error + dict" where
  \<comment> \<open>lines 168 and 169: the two assignments into \<^verbatim>\<open>config["trl"]\<close>\<close>
  "config_trl filename reward_funcs_names reward_functions config =
     (case getitem config ''trl'' of
        Inl e \<Rightarrow> Inl e
      | Inr trl \<Rightarrow>
          (case as_dict trl of
             Inl e \<Rightarrow> Inl e
           | Inr kvs \<Rightarrow>
               Inr (AList.update ''trl''
                 (YDict
                   (AList.update ''reward_weights''
                      (YList (map (\<lambda>reward_function. YFloat (reward_weight reward_function))
                                reward_functions))
                     (AList.update ''reward_funcs''
                        (YList (map (\<lambda>func_name. YStr (filename @ ''.'' @ func_name))
                                  reward_funcs_names))
                        kvs)))
                 config)))"

definition config_rl :: "env \<Rightarrow> string \<Rightarrow> dataset_type \<Rightarrow> dict \<Rightarrow> dict io" where
  \<comment> \<open>lines 160 to 169\<close>
  "config_rl env task_id dataset_type config =
     (case dataset_type of
        DpoDatasetType validated \<Rightarrow> io_return (AList.update ''rl'' (YStr ''dpo'') config)
      | GrpoDatasetType reward_functions validated \<Rightarrow>
          io_bind (io_lift (getitem (AXOLOTL_DIRECTORIES env) ''src'')) (\<lambda>destination_dir.
          io_bind (create_reward_funcs_file env (map reward_func reward_functions) task_id
                     destination_dir) (\<lambda>(filename, reward_funcs_names).
          io_lift (config_trl filename reward_funcs_names reward_functions config)))
      | InstructTextDatasetType validated \<Rightarrow> io_return config)"

definition rewrite_dataset_entry :: "env \<Rightarrow> path \<Rightarrow> yaml \<Rightarrow> error + yaml" where
  \<comment> \<open>the body of the loop of lines 172 to 178, for one entry \<open>ds\<close>\<close>
  "rewrite_dataset_entry env dataset ds =
     (case as_dict ds of
        Inl e \<Rightarrow> Inl e
      | Inr kvs \<Rightarrow>
          (let kvs1 = AList.update ''ds_type'' (YStr ''json'') kvs in
           case (if ''path'' \<in> fst ` set kvs1
                 then (case getitem (AXOLOTL_DIRECTORIES env) ''data'' of
                         Inl e \<Rightarrow> Inl e
                       | Inr data_dir \<Rightarrow> Inr (AList.update ''path'' (YStr data_dir) kvs1))
                 else Inr kvs1) of
             Inl e \<Rightarrow> Inl e
           | Inr kvs2 \<Rightarrow>
               Inr (YDict (AList.update ''data_files''
                             (YList [YStr (os_path_basename dataset)]) kvs2))))"

fun rewrite_dataset_entries :: "env \<Rightarrow> path \<Rightarrow> yaml list \<Rightarrow> error + yaml list" where
  \<comment> \<open>the loop: entries in order, stopping at the first exception\<close>
  "rewrite_dataset_entries env dataset [] = Inr []"
| "rewrite_dataset_entries env dataset (ds # rest) =
     (case rewrite_dataset_entry env dataset ds of
        Inl e \<Rightarrow> Inl e
      | Inr ds' \<Rightarrow>
          (case rewrite_dataset_entries env dataset rest of
             Inl e \<Rightarrow> Inl e
           | Inr rest' \<Rightarrow> Inr (ds' # rest')))"

definition config_datasets :: "env \<Rightarrow> path \<Rightarrow> string \<Rightarrow> dict \<Rightarrow> error + dict" where
  \<comment> \<open>lines 171 to 178. Iterating a non-empty mapping or string yields strings, which
      take no item assignment; iterating an empty one does nothing; other values are not
      iterable.\<close>
  "config_datasets env dataset file_format config =
     (if file_format \<noteq> FileFormat_value HF then
        (case getitem config ''datasets'' of
           Inl e \<Rightarrow> Inl e
         | Inr (YList entries) \<Rightarrow>
             (case rewrite_dataset_entries env dataset entries of
                Inl e \<Rightarrow> Inl e
              | Inr entries' \<Rightarrow> Inr (AList.update ''datasets'' (YList entries') config))
         | Inr (YDict kvs) \<Rightarrow>
             if kvs = [] then Inr config
             else Inl (TypeError ''str object does not support item assignment'')
         | Inr (YStr s) \<Rightarrow>
             if s = [] then Inr config
             else Inl (TypeError ''str object does not support item assignment'')
         | Inr other \<Rightarrow> Inl (TypeError ''object is not iterable''))
      else Inr config)"

definition config_special_tokens :: "tokenizer \<Rightarrow> dict \<Rightarrow> dict" where
  \<comment> \<open>lines 181 and 182\<close>
  "config_special_tokens tok config =
     (if pad_token_id tok = None \<and> eos_token_id tok \<noteq> None
      then AList.update ''special_tokens''
             (YDict [(''pad_token'', yaml_of_optional (eos_token tok))]) config
      else config)"

definition task_type_of :: "dataset_type \<Rightarrow> task_family" where
  \<comment> \<open>line 184\<close>
  "task_type_of dataset_type =
     (case dataset_type of
        DpoDatasetType validated \<Rightarrow> DPO
      | GrpoDatasetType reward_functions validated \<Rightarrow> GRPO
      | InstructTextDatasetType validated \<Rightarrow> INSTRUCT)"

text \<open>
  \<^verbatim>\<open>create_config\<close> in three parts: the document as it stands after line 169
  (\<open>config_before_datasets\<close>), the rewriting of its dataset entries (\<open>config_datasets\<close>
  above), and lines 180 to 189 (\<open>config_finish\<close>).
\<close>

definition config_before_datasets ::
  "env \<Rightarrow> string \<Rightarrow> string \<Rightarrow> path \<Rightarrow> dataset_type \<Rightarrow> string \<Rightarrow> path \<Rightarrow> string option \<Rightarrow> bool
     \<Rightarrow> dict io" where
  \<comment> \<open>lines 136 to 169\<close>
  "config_before_datasets env task_id model dataset dataset_type file_format output_dir
       expected_repo_name log_wandb =
     io_bind (open_read (get_axolotl_base_config_path env dataset_type)) (\<lambda>txt.
     io_bind (call (yaml_safe_load env txt)) (\<lambda>loaded.
     io_bind (io_lift (FileFormat_of file_format)) (\<lambda>fmt.
     io_bind (call (create_dataset_entry env dataset dataset_type fmt)) (\<lambda>entry.
     io_bind (io_lift (as_dict loaded)) (\<lambda>config.
     io_then (os_makedirs output_dir) (
     io_bind (config_wandb env task_id expected_repo_name log_wandb
                (AList.update ''output_dir'' (YStr output_dir)
                  (AList.update ''mlflow_experiment_name'' (YStr dataset)
                    (AList.update ''base_model'' (YStr (get_text_base_model_path env model))
                      (AList.update ''datasets'' (YList [entry]) config))))) (\<lambda>config2.
     io_bind (call (update_flash_attention env config2 model)) (\<lambda>config3.
     config_rl env task_id dataset_type config3))))))))"

definition config_finish ::
  "env \<Rightarrow> string \<Rightarrow> string \<Rightarrow> dataset_type \<Rightarrow> dict \<Rightarrow> path io" where
  \<comment> \<open>lines 180 to 189\<close>
  "config_finish env task_id model dataset_type config =
     (let model_path = get_text_base_model_path env model in
      io_bind (call (AutoTokenizer_from_pretrained env model_path)) (\<lambda>tok.
      io_bind (call (customize_config env (config_special_tokens tok config)
                       (task_type_of dataset_type) model_path model)) (\<lambda>customized.
      io_bind (io_lift (getitem (AXOLOTL_DIRECTORIES env) ''configs'')) (\<lambda>configs_dir.
      (let config_path = os_path_join configs_dir (task_id @ ''.yml'') in
       io_then (save_config (AList.update ''val_set_size'' (YInt 0) customized) config_path)
               (io_return config_path))))))"

definition create_config ::
  "env \<Rightarrow> string \<Rightarrow> string \<Rightarrow> path \<Rightarrow> dataset_type \<Rightarrow> string \<Rightarrow> path \<Rightarrow> string option \<Rightarrow> bool
     \<Rightarrow> path io" where
  "create_config env task_id model dataset dataset_type file_format output_dir
       expected_repo_name log_wandb =
     io_bind (config_before_datasets env task_id model dataset dataset_type file_format
                output_dir expected_repo_name log_wandb) (\<lambda>config.
     io_bind (io_lift (config_datasets env dataset file_format config)) (\<lambda>config'.
     config_finish env task_id model dataset_type config'))"

text \<open>
  What the claims about the produced document take for granted of \<^verbatim>\<open>customize_config\<close>,
  which runs after the fields are set and whose code is not among the sources: that it
  leaves the entry under a given key as it finds it.
\<close>

definition customize_config_keeps :: "env \<Rightarrow> string \<Rightarrow> bool" where
  "customize_config_keeps env key =
     (\<forall>config task_type model_path model config'.
        customize_config env config task_type model_path model = Inr config'
          \<longrightarrow> map_of config' key = map_of config key)"

definition keeps_saved_configs :: "'a io \<Rightarrow> bool" where
  \<comment> \<open>the statement hands no document to \<^verbatim>\<open>save_config\<close>\<close>
  "keeps_saved_configs m = (\<forall>w r w'. m w = (r, w') \<longrightarrow> saved_configs w' = saved_configs w)"

text \<open>
  For the reward lists less is needed: \<^verbatim>\<open>customize_config\<close> may set other fields of
  \<open>trl\<close>, as long as it leaves the two lists as it finds them.
\<close>

definition customize_config_keeps_reward_lists :: "env \<Rightarrow> bool" where
  "customize_config_keeps_reward_lists env =
     (\<forall>config task_type model_path model config' trl.
        customize_config env config task_type model_path model = Inr config'
        \<and> map_of config ''trl'' = Some (YDict trl)
          \<longrightarrow> (\<exists>trl'. map_of config' ''trl'' = Some (YDict trl')
                    \<and> map_of trl' ''reward_funcs'' = map_of trl ''reward_funcs''
                    \<and> map_of trl' ''reward_weights'' = map_of trl ''reward_weights''))"

section \<open>The orchestration: \<^verbatim>\<open>main\<close>\<close>

record args =
  args_task_id :: string
  args_model :: string
  args_dataset :: string
  args_dataset_type :: string
  args_task_type :: string
  args_file_format :: string
  args_expected_repo_name :: "string option"
  args_hours_to_complete :: real

text \<open>
  What distinguishes one process of a run from another: its rank, and the reading of its
  wall clock, in microseconds since the epoch, when line 256 executes.
\<close>

record process =
  LOCAL_RANK :: int
  clock_now :: int

text \<open>
  The values collected while the command line is read: \<open>None\<close> until an option is
  given, the last occurrence winning.
\<close>

record namespace =
  ns_task_id :: "string option"
  ns_model :: "string option"
  ns_dataset :: "string option"
  ns_dataset_type :: "string option"
  ns_task_type :: "string option"
  ns_file_format :: "string option"
  ns_expected_repo_name :: "string option"
  ns_hours_to_complete :: "real option"

definition empty_namespace :: namespace where
  "empty_namespace =
     \<lparr>ns_task_id = None, ns_model = None, ns_dataset = None, ns_dataset_type = None,
      ns_task_type = None, ns_file_format = None, ns_expected_repo_name = None,
      ns_hours_to_complete = None\<rparr>"

definition task_type_choices :: "string list" where
  "task_type_choices = [''InstructTextTask'', ''DpoTask'', ''GrpoTask'']"

definition file_format_choices :: "string list" where
  "file_format_choices = [''csv'', ''json'', ''hf'', ''s3'']"

fun store :: "env \<Rightarrow> option_dest \<Rightarrow> string \<Rightarrow> namespace \<Rightarrow> argparse_error + namespace" where
  \<comment> \<open>what the parser does with one option and its argument: the conversion of
      \<^verbatim>\<open>type=float\<close>, the test against \<^verbatim>\<open>choices\<close>, the assignment\<close>
  "store env TASK_ID v ns = Inr (ns\<lparr>ns_task_id := Some v\<rparr>)"
| "store env MODEL v ns = Inr (ns\<lparr>ns_model := Some v\<rparr>)"
| "store env DATASET v ns = Inr (ns\<lparr>ns_dataset := Some v\<rparr>)"
| "store env DATASET_TYPE v ns = Inr (ns\<lparr>ns_dataset_type := Some v\<rparr>)"
| "store env TASK_TYPE v ns =
     (if v \<in> set task_type_choices then Inr (ns\<lparr>ns_task_type := Some v\<rparr>)
      else Inl (Invalid_choice (option_string TASK_TYPE) v task_type_choices))"
| "store env FILE_FORMAT v ns =
     (if v \<in> set file_format_choices then Inr (ns\<lparr>ns_file_format := Some v\<rparr>)
      else Inl (Invalid_choice (option_string FILE_FORMAT) v file_format_choices))"
| "store env EXPECTED_REPO_NAME v ns = Inr (ns\<lparr>ns_expected_repo_name := Some v\<rparr>)"
| "store env HOURS_TO_COMPLETE v ns =
     (case float_of_string env v of
        None \<Rightarrow> Inl (Invalid_value (option_string HOURS_TO_COMPLETE) ''float'' v)
      | Some h \<Rightarrow> Inr (ns\<lparr>ns_hours_to_complete := Some h\<rparr>))"

definition required_missing :: "namespace \<Rightarrow> string list" where
  \<comment> \<open>the options declared \<^verbatim>\<open>required=True\<close> that were not given, in the order declared\<close>
  "required_missing ns =
     (if ns_task_id ns = None then [option_string TASK_ID] else []) @
     (if ns_model ns = None then [option_string MODEL] else []) @
     (if ns_dataset ns = None then [option_string DATASET] else []) @
     (if ns_dataset_type ns = None then [option_string DATASET_TYPE] else []) @
     (if ns_task_type ns = None then [option_string TASK_TYPE] else []) @
     (if ns_file_format ns = None then [option_string FILE_FORMAT] else []) @
     (if ns_hours_to_complete ns = None then [option_string HOURS_TO_COMPLETE] else [])"

definition args_of_namespace :: "namespace \<Rightarrow> args option" where
  \<comment> \<open>the namespace \<^verbatim>\<open>parse_args\<close> returns, once every required option has a value\<close>
  "args_of_namespace ns =
     (case (ns_task_id ns, ns_model ns, ns_dataset ns, ns_dataset_type ns, ns_task_type ns,
            ns_file_format ns, ns_hours_to_complete ns) of
        (Some task_id, Some model, Some dataset, Some dataset_type, Some task_type,
         Some file_format, Some hours) \<Rightarrow>
          Some \<lparr>args_task_id = task_id,
                args_model = model,
                args_dataset = dataset,
                args_dataset_type = dataset_type,
                args_task_type = task_type,
                args_file_format = file_format,
                args_expected_repo_name = ns_expected_repo_name ns,
                args_hours_to_complete = hours\<rparr>
      | _ \<Rightarrow> None)"

datatype parse_outcome = Parsed args | Exit_error argparse_error | Exit_help

fun parse_arguments :: "env \<Rightarrow> argument list \<Rightarrow> namespace \<Rightarrow> string list \<Rightarrow> parse_outcome" where
  \<comment> \<open>The parser acts on the arguments from left to right and stops at the first that
      ends the process: an error, or the help option. At the end of the line it demands
      the required options, then refuses what it did not recognize.\<close>
  "parse_arguments env [] ns extras =
     (case args_of_namespace ns of
        None \<Rightarrow> Exit_error (Required_missing (required_missing ns))
      | Some a \<Rightarrow>
          if extras \<noteq> [] then Exit_error (Unrecognized_arguments extras) else Parsed a)"
| "parse_arguments env (Opt dest v # rest) ns extras =
     (case store env dest v ns of
        Inl err \<Rightarrow> Exit_error err
      | Inr ns' \<Rightarrow> parse_arguments env rest ns' extras)"
| "parse_arguments env (Help # rest) ns extras = Exit_help"
| "parse_arguments env (Refused reason # rest) ns extras = Exit_error (Refused_argument reason)"
| "parse_arguments env (Unrecognized s # rest) ns extras =
     parse_arguments env rest ns (extras @ [s])"

definition print_help :: "env \<Rightarrow> unit io" where
  \<comment> \<open>\<^verbatim>\<open>parser.print_help()\<close>: the parser writes to standard output and lets an \<open>OSError\<close>
      pass\<close>
  "print_help env w =
     (case stdout_state w of
        StreamOpen \<Rightarrow> (Inr (), w\<lparr>stdout := stdout w @ [format_help env]\<rparr>)
      | StreamClosed \<Rightarrow> (Inl (ValueError ''I/O operation on closed file.''), w)
      | StreamBroken \<Rightarrow> (Inr (), w))"

definition parse_args :: "env \<Rightarrow> argument list \<Rightarrow> args io" where
  \<comment> \<open>\<^verbatim>\<open>parser.parse_args()\<close>: an error exits with status 2 and the error text on standard
      error, the help option prints the help and exits with status 0\<close>
  "parse_args env argv =
     (case parse_arguments env argv empty_namespace [] of
        Parsed a \<Rightarrow> io_return a
      | Exit_error err \<Rightarrow> io_raise (SystemExit 2 (format_error env err))
      | Exit_help \<Rightarrow> io_then (print_help env) (io_raise (SystemExit 0 [])))"



definition is_main_process :: "int \<Rightarrow> bool" where
  \<comment> \<open>\<^verbatim>\<open>transformers.trainer_utils.is_main_process\<close>\<close>
  "is_main_process local_rank = (local_rank \<in> set [- 1, 0])"

definition keyword_arguments :: "yaml \<Rightarrow> error + dict" where
  \<comment> \<open>\<^verbatim>\<open>**dataset_type_dict\<close>\<close>
  "keyword_arguments v =
     (case v of
        YDict kvs \<Rightarrow> Inr kvs
      | _ \<Rightarrow> Inl (TypeError ''argument after ** must be a mapping''))"

definition construct :: "string + 'a \<Rightarrow> error + 'a" where
  \<comment> \<open>the call of a record constructor, which raises on a mapping it does not accept\<close>
  "construct r = (case r of Inl m \<Rightarrow> Inl (CollaboratorError m) | Inr v \<Rightarrow> Inr v)"

definition parse_dataset_type :: "env \<Rightarrow> args \<Rightarrow> error + dataset_type" where
  \<comment> \<open>the body of the \<^verbatim>\<open>try\<close> statement, lines 219 to 228\<close>
  "parse_dataset_type env a =
     (case json_load (json env) (args_dataset_type a) of
        Inl e \<Rightarrow> Inl e
      | Inr dataset_type_dict \<Rightarrow>
          if args_task_type a = TaskType_value DPOTASK then
            (case keyword_arguments dataset_type_dict of
               Inl e \<Rightarrow> Inl e
             | Inr kvs \<Rightarrow> map_sum id DpoDatasetType (construct (new_DpoDatasetType env kvs)))
          else if args_task_type a = TaskType_value INSTRUCTTEXTTASK then
            (case keyword_arguments dataset_type_dict of
               Inl e \<Rightarrow> Inl e
             | Inr kvs \<Rightarrow>
                 map_sum id InstructTextDatasetType (construct (new_InstructTextDatasetType env kvs)))
          else if args_task_type a = TaskType_value GRPOTASK then
            (case keyword_arguments dataset_type_dict of
               Inl e \<Rightarrow> Inl e
             | Inr kvs \<Rightarrow>
                 map_sum id (\<lambda>(reward_functions, validated).
                               GrpoDatasetType reward_functions validated)
                   (construct (new_GrpoDatasetType env kvs)))
          else Inl (SystemExit 1 (''Unsupported task type: '' @ args_task_type a)))"

definition load_dataset_type :: "env \<Rightarrow> args \<Rightarrow> dataset_type io" where
  \<comment> \<open>lines 218 to 230; \<^verbatim>\<open>sys.exit(message)\<close> exits with status 1\<close>
  "load_dataset_type env a =
     try_except_Exception (io_lift (parse_dataset_type env a))
       (\<lambda>e. io_raise (SystemExit 1 (''Error creating dataset type object: '' @ str_error e)))"

definition copy_dataset_to_axolotl_directories :: "env \<Rightarrow> path \<Rightarrow> path io" where
  "copy_dataset_to_axolotl_directories env dataset_path =
     (case get_axolotl_dataset_paths env (os_path_basename dataset_path) of
        (data_path, root_path) \<Rightarrow>
          io_then (shutil_copy dataset_path data_path)
            (io_then (shutil_copy dataset_path root_path) (io_return data_path)))"

definition makedirs_unless_exists :: "path \<Rightarrow> unit io" where
  \<comment> \<open>\<^verbatim>\<open>if not os.path.exists(d): os.makedirs(d, exist_ok=True)\<close>\<close>
  "makedirs_unless_exists d w = (if \<not> os_path_exists d w then os_makedirs d w else (Inr (), w))"

fun makedirs_each :: "path list \<Rightarrow> unit io" where
  \<comment> \<open>the loop of lines 216 and 217\<close>
  "makedirs_each [] = io_return ()"
| "makedirs_each (directory # rest) = io_then (os_makedirs directory) (makedirs_each rest)"

definition main_directories :: "env \<Rightarrow> process \<Rightarrow> args \<Rightarrow> (path \<times> path \<times> path) io" where
  \<comment> \<open>lines 207 to 217: the submission directory, the working output directory, the path
      of the configuration document, and for the main process the shared directories\<close>
  "main_directories env p a =
     (let submission_dir =
            get_checkpoints_output_path env (args_task_id a) (args_expected_repo_name a);
          output_dir =
            get_checkpoints_output_path env (args_task_id a)
              (Some (str_of_optional (args_expected_repo_name a) @ ''_temp''))
      in
      io_then (makedirs_unless_exists submission_dir) (
      io_then (makedirs_unless_exists output_dir) (
      io_bind (io_lift (getitem (AXOLOTL_DIRECTORIES env) ''configs'')) (\<lambda>configs_dir.
      io_then (io_when (is_main_process (LOCAL_RANK p))
                 (makedirs_each (map snd (AXOLOTL_DIRECTORIES env))))
              (io_return (submission_dir, output_dir,
                          os_path_join configs_dir (args_task_id a @ ''.yml'')))))))"

definition main_dataset_and_config :: "env \<Rightarrow> args \<Rightarrow> path \<Rightarrow> unit io" where
  \<comment> \<open>lines 218 to 249, run by the main process only\<close>
  "main_dataset_and_config env a output_dir =
     io_bind (load_dataset_type env a) (\<lambda>dataset_type.
     (let dataset_path = get_text_dataset_path env (args_task_id a) in
      io_then
        (if args_task_type a = TaskType_value DPOTASK
         then adapt_columns_for_dpo_dataset env dataset_path dataset_type
         else if args_task_type a = TaskType_value GRPOTASK
         then adapt_columns_for_grpo_dataset env dataset_path dataset_type
         else io_return ()) (
      io_bind (copy_dataset_to_axolotl_directories env dataset_path) (\<lambda>dataset_path'.
      io_then (create_config env (args_task_id a) (args_model a) dataset_path' dataset_type
                 (args_file_format a) output_dir (args_expected_repo_name a) True)
              (io_return ())))))"

definition setup_distributed :: "env \<Rightarrow> unit io" where
  "setup_distributed env w =
     (if 1 < get_available_gpu_count env then
        (if \<not> dist_is_initialized env w
         then io_then (dist_init_process_group env) (dist_barrier env) w
         else (Inr (), w))
      else (Inr (), w))"

subsection \<open>The deadline\<close>

definition civil_from_days :: "int \<Rightarrow> int \<times> int \<times> int" where
  \<comment> \<open>year, month and day of the proleptic Gregorian calendar, from days since 1970-01-01\<close>
  "civil_from_days days =
     (let z = days + 719468;
          era = z div 146097;
          doe = z - era * 146097;
          yoe = (doe - doe div 1460 + doe div 36524 - doe div 146096) div 365;
          doy = doe - (365 * yoe + yoe div 4 - yoe div 100);
          mp = (5 * doy + 2) div 153;
          d = doy - (153 * mp + 2) div 5 + 1;
          m = (if mp < 10 then mp + 3 else mp - 9)
      in (if m \<le> 2 then yoe + era * 400 + 1 else yoe + era * 400, m, d))"

definition digit :: "int \<Rightarrow> char" where
  "digit n = ''0123456789'' ! nat (n mod 10)"

definition strftime :: "int \<Rightarrow> string" where
  \<comment> \<open>\<^verbatim>\<open>strftime("%Y-%m-%d %H:%M:%S")\<close> of an instant in microseconds since the epoch
      (years of four digits)\<close>
  "strftime t =
     (let secs = t div 1000000; sod = secs mod 86400 in
      case civil_from_days (secs div 86400) of
        (y, m, d) \<Rightarrow>
          [digit (y div 1000), digit (y div 100), digit (y div 10), digit y] @ ''-'' @
          [digit (m div 10), digit m] @ ''-'' @ [digit (d div 10), digit d] @ '' '' @
          [digit (sod div 36000), digit (sod div 3600)] @ '':'' @
          [digit (sod mod 3600 div 600), digit (sod mod 3600 div 60)] @ '':'' @
          [digit (sod mod 60 div 10), digit (sod mod 60)])"

definition compute_end_time :: "env \<Rightarrow> process \<Rightarrow> args \<Rightarrow> error + string" where
  \<comment> \<open>lines 256 and 257; a \<^verbatim>\<open>datetime\<close> holds the years 1 to 9999\<close>
  "compute_end_time env p a =
     (let end_time = clock_now p + timedelta_hours env (args_hours_to_complete a) in
      if end_time < - 62135596800000000 \<or> 253402300800000000 \<le> end_time
      then Inl (OverflowError ''date value out of range'')
      else Inr (strftime end_time))"

subsection \<open>The patched constructor\<close>

text \<open>The variables \<^verbatim>\<open>patched_init\<close> reads from the scope of \<^verbatim>\<open>main\<close>.\<close>

record closure =
  captured_original_task_type :: string
  captured_original_model_name :: string
  captured_end_time :: string
  captured_submission_dir :: path
  captured_output_dir :: path

definition patched_init :: "closure \<Rightarrow> callback list option \<Rightarrow> callback list" where
  \<comment> \<open>lines 260 to 270; the result is the \<^verbatim>\<open>callbacks\<close> argument \<^verbatim>\<open>original_init\<close> receives\<close>
  "patched_init c kwargs_callbacks =
     (let callbacks = (case kwargs_callbacks of None \<Rightarrow> [] | Some given \<Rightarrow> given) in
      if captured_original_task_type c = TaskType_value GRPOTASK then
        callbacks @ [GRPOCustomEvalSaveCallback (WhenToEvalHandler (captured_end_time c) 5)
                       (captured_submission_dir c) (captured_output_dir c)
                       (captured_original_model_name c)]
      else
        callbacks @ [CustomEvalSaveCallback (WhenToEvalHandler (captured_end_time c) 5)
                       (captured_submission_dir c) (captured_output_dir c)
                       (captured_original_model_name c)])"

definition main_train :: "env \<Rightarrow> process \<Rightarrow> args \<Rightarrow> path \<Rightarrow> path \<Rightarrow> path \<Rightarrow> callback list list io" where
  \<comment> \<open>lines 252 to 278; the result lists the callbacks of every \<^verbatim>\<open>Trainer\<close> constructed\<close>
  "main_train env p a submission output config_path =
     io_then (setup_distributed env) (
     io_bind (io_lift (compute_end_time env p a)) (\<lambda>deadline.
     io_then (print (''end_time:  '' @ deadline)) (
     io_bind (do_cli env config_path) (\<lambda>constructions.
     io_return
       (map (patched_init \<lparr>captured_original_task_type = args_task_type a,
                            captured_original_model_name = args_model a,
                            captured_end_time = deadline,
                            captured_submission_dir = submission,
                            captured_output_dir = output\<rparr>)
            constructions)))))"

definition main :: "env \<Rightarrow> process \<Rightarrow> argument list \<Rightarrow> callback list list io" where
  "main env p argv =
     io_then (print ''---STARTING TEXT TRAINING SCRIPT---'') (
     io_bind (parse_args env argv) (\<lambda>a.
     io_bind (main_directories env p a) (\<lambda>(submission, output, config_path).
     io_then (io_when (is_main_process (LOCAL_RANK p)) (main_dataset_and_config env a output))
             (main_train env p a submission output config_path))))"

fun callback_end_time :: "callback \<Rightarrow> string option" where
  \<comment> \<open>the deadline held by the supervisor of an installed callback\<close>
  "callback_end_time (CustomEvalSaveCallback h s out m) = Some (handler_end_time h)"
| "callback_end_time (GRPOCustomEvalSaveCallback h s out m) = Some (handler_end_time h)"
| "callback_end_time (OtherCallback name) = None"

fun is_GRPO_callback :: "callback \<Rightarrow> bool" where
  "is_GRPO_callback (GRPOCustomEvalSaveCallback h s out m) = True"
| "is_GRPO_callback c = False"

fun is_standard_callback :: "callback \<Rightarrow> bool" where
  "is_standard_callback (CustomEvalSaveCallback h s out m) = True"
| "is_standard_callback c = False"

section \<open>A concrete run\<close>

text \<open>
  One small instance of the parameters, on which the theorems below are exercised: a GRPO
  task with two reward functions on a machine with two devices. The parsers are toys
  that know the few texts of the instance.
\<close>

definition example_reward_functions :: "RewardFunction list" where
  "example_reward_functions =
     [\<lparr>reward_func = ''def f(completions): return 1'', reward_weight = 1\<rparr>,
      \<lparr>reward_func = ''def g(completions): return 0'', reward_weight = 1 / 2\<rparr>]"

definition example_env :: env where
  "example_env =
     \<lparr>get_checkpoints_output_path = (\<lambda>task repo. ''/ck/'' @ task @ ''/'' @ str_of_optional repo),
      get_axolotl_base_config_path =
        (\<lambda>dataset_type. case dataset_type of
           GrpoDatasetType reward_functions validated \<Rightarrow> ''/cfg/base_grpo.yml''
         | _ \<Rightarrow> ''/cfg/base.yml''),
      get_text_base_model_path = (\<lambda>model. ''/models/'' @ model),
      get_text_dataset_path = (\<lambda>task. ''/datasets/'' @ task @ ''.json''),
      get_axolotl_dataset_paths = (\<lambda>name. (''/axolotl/data/'' @ name, ''/axolotl/'' @ name)),
      AXOLOTL_DIRECTORIES =
        [(''data'', ''/axolotl/data''), (''root'', ''/axolotl''), (''src'', ''/axolotl/src''),
         (''configs'', ''/axolotl/configs'')],
      WANDB_LOGS_DIR = ''/wandb'',
      json = \<lparr>json_loads = (\<lambda>txt. if txt = ''{}'' then Inr (YDict []) else Inl ''Expecting value''),
               json_dumps = (\<lambda>v. ''{}'')\<rparr>,
      yaml_safe_load =
        (\<lambda>txt. if txt = ''trl: {}'' then Inr (YDict [(''trl'', YDict [])])
               else Inl ''could not parse''),
      new_InstructTextDatasetType = Inr,
      new_DpoDatasetType = Inr,
      new_GrpoDatasetType = (\<lambda>kvs. Inr (example_reward_functions, kvs)),
      create_dataset_entry = (\<lambda>dataset dataset_type fmt. Inr (YDict [(''path'', YStr dataset)])),
      update_flash_attention =
        (\<lambda>config model. Inr (AList.update ''flash_attention'' (YBool True) config)),
      customize_config =
        (\<lambda>config task_type model_path model.
           Inr (AList.update ''gradient_checkpointing'' (YBool True)
                  (case map_of config ''trl'' of
                     Some (YDict trl) \<Rightarrow>
                       AList.update ''trl'' (YDict (AList.update ''beta'' (YFloat (1 / 25)) trl))
                         config
                   | _ \<Rightarrow> config))),
      AutoTokenizer_from_pretrained =
        (\<lambda>model_path.
           if model_path = ''/models/org/padded''
           then Inr \<lparr>pad_token_id = Some 0, eos_token_id = Some 2, eos_token = Some ''</s>''\<rparr>
           else Inr \<lparr>pad_token_id = None, eos_token_id = Some 2, eos_token = Some ''</s>''\<rparr>),
      reward_module_name = (\<lambda>task. ''rewards_'' @ task),
      reward_function_name = (\<lambda>i src. takeWhile (\<lambda>c. c \<noteq> CHR ''('') (drop 4 src)),
      reward_module_source = concat,
      adapt_columns_for_dpo_dataset = (\<lambda>dataset_path dataset_type. io_return ()),
      adapt_columns_for_grpo_dataset = (\<lambda>dataset_path dataset_type. io_return ()),
      get_available_gpu_count = 2,
      dist_is_initialized = (\<lambda>w. False),
      dist_init_process_group = io_return (),
      dist_barrier = io_return (),
      timedelta_hours = (\<lambda>h. \<lfloor>h * 3600000000\<rfloor>),
      do_cli = (\<lambda>config_path. io_return [None]),
      float_of_string = (\<lambda>s. if s = ''2'' then Some 2 else None),
      format_error =
        (\<lambda>err. case err of
           Invalid_choice opt v choices \<Rightarrow> ''argument '' @ opt @ '': invalid choice: '' @ v
         | Invalid_value opt type v \<Rightarrow> ''argument '' @ opt @ '': invalid '' @ type @ '' value: '' @ v
         | Required_missing opts \<Rightarrow> ''the following arguments are required''
         | Unrecognized_arguments strings \<Rightarrow> ''unrecognized arguments''
         | Refused_argument reason \<Rightarrow> reason),
      format_help = ''usage: text_trainer.py [-h] ...''\<rparr>"

definition example_world :: world where
  "example_world =
     \<lparr>nodes = [''/cfg/base_grpo.yml'' \<mapsto> File ''trl: {}'',
               ''/datasets/t1.json'' \<mapsto> File ''[]''],
      unreadable = {},
      unwritable = {},
      stdout_state = StreamOpen,
      stdout = [],
      saved_configs = []\<rparr>"

definition example_args :: args where
  "example_args =
     \<lparr>args_task_id = ''t1'',
      args_model = ''org/model'',
      args_dataset = ''/datasets/t1.json'',
      args_dataset_type = ''{}'',
      args_task_type = ''GrpoTask'',
      args_file_format = ''json'',
      args_expected_repo_name = Some ''repo'',
      args_hours_to_complete = 2\<rparr>"

definition example_patch_world :: world where
  \<comment> \<open>an output directory whose adapter configuration cannot be read\<close>
  "example_patch_world =
     \<lparr>nodes = [''/out/adapter_config.json'' \<mapsto> File ''{}'',
               ''/out/README.md'' \<mapsto> File ''base_model: local''],
      unreadable = {''/out/adapter_config.json''},
      unwritable = {},
      stdout_state = StreamOpen,
      stdout = [],
      saved_configs = []\<rparr>"


definition example_before_datasets :: "string \<Rightarrow> string \<Rightarrow> (error + dict) \<times> world" where
  "example_before_datasets model file_format =
     config_before_datasets example_env ''t1'' model ''/axolotl/data/t1.json''
       (GrpoDatasetType example_reward_functions []) file_format ''/ck/t1/repo_temp''
       (Some ''repo'') True example_world"

definition example_create_config :: "string \<Rightarrow> string \<Rightarrow> (error + path) \<times> world" where
  "example_create_config model file_format =
     create_config example_env ''t1'' model ''/axolotl/data/t1.json''
       (GrpoDatasetType example_reward_functions []) file_format ''/ck/t1/repo_temp''
       (Some ''repo'') True example_world"

definition example_config_line_169 :: "string \<Rightarrow> dict" where
  \<comment> \<open>the document of the instance after line 169\<close>
  "example_config_line_169 model =
     [(''trl'', YDict [(''reward_funcs'', YList [YStr ''rewards_t1.f'', YStr ''rewards_t1.g'']),
                       (''reward_weights'', YList [YFloat 1, YFloat (1 / 2)])]),
      (''datasets'', YList [YDict [(''path'', YStr ''/axolotl/data/t1.json'')]]),
      (''base_model'', YStr (''/models/'' @ model)),
      (''mlflow_experiment_name'', YStr ''/axolotl/data/t1.json''),
      (''output_dir'', YStr ''/ck/t1/repo_temp''),
      (''wandb_runid'', YStr ''t1_repo''),
      (''wandb_name'', YStr ''t1_repo''),
      (''wandb_mode'', YStr ''offline''),
      (''flash_attention'', YBool True)]"

definition saved_values :: "string \<Rightarrow> world \<Rightarrow> yaml option list" where
  \<comment> \<open>what the documents handed to \<^verbatim>\<open>save_config\<close> hold under a key\<close>
  "saved_values key w = map (\<lambda>(config_path, document). map_of document key) (saved_configs w)"

definition example_env_template_pad :: env where
  \<comment> \<open>the instance with a base template that sets a pad token\<close>
  "example_env_template_pad =
     example_env\<lparr>yaml_safe_load :=
       (\<lambda>txt. Inr (YDict [(''special_tokens'', YDict [(''pad_token'', YStr ''<pad>'')]),
                          (''trl'', YDict [])]))\<rparr>"

definition example_env_entry_without_path :: env where
  \<comment> \<open>the instance with dataset entries that name the dataset otherwise than by a path\<close>
  "example_env_entry_without_path =
     example_env\<lparr>create_dataset_entry :=
       (\<lambda>dataset dataset_type fmt. Inr (YDict [(''name'', YStr dataset)]))\<rparr>"

definition example_argv :: "argument list" where
  \<comment> \<open>the command line that yields \<open>example_args\<close>\<close>
  "example_argv =
     [Opt TASK_ID ''t1'', Opt MODEL ''org/model'', Opt DATASET ''/datasets/t1.json'',
      Opt DATASET_TYPE ''{}'', Opt TASK_TYPE ''GrpoTask'', Opt FILE_FORMAT ''json'',
      Opt EXPECTED_REPO_NAME ''repo'', Opt HOURS_TO_COMPLETE ''2'']"

definition example_main ::
  "int \<Rightarrow> int \<Rightarrow> argument list \<Rightarrow> (error + callback list list) \<times> world" where
  \<comment> \<open>the run of the process with the given rank and clock reading\<close>
  "example_main rank now argv =
     main example_env \<lparr>LOCAL_RANK = rank, clock_now = now\<rparr> argv example_world"

section \<open>Properties\<close>

subsection \<open>Properties of the supervisor\<close>










subsection \<open>The metadata patcher and its exceptions\<close>

lemma roe_bind:
  "raises_only_Exception m \<Longrightarrow> (\<And>x. raises_only_Exception (f x)) \<Longrightarrow>
     raises_only_Exception (io_bind m f)"
  unfolding raises_only_Exception_def io_bind_def
  by (auto split: prod.splits sum.splits)

lemma roe_then:
  "raises_only_Exception m \<Longrightarrow> raises_only_Exception k \<Longrightarrow> raises_only_Exception (io_then m k)"
  by (simp add: io_then_def roe_bind)

lemma roe_print: "raises_only_Exception (print line)"
  by (auto simp: raises_only_Exception_def print_def split: stream_state.splits)

lemma roe_open_read: "raises_only_Exception (open_read p)"
  by (auto simp: raises_only_Exception_def open_read_def split: option.splits node.splits if_splits)

lemma roe_open_write: "raises_only_Exception (open_write p txt)"
  by (auto simp: raises_only_Exception_def open_write_def split: if_splits)

lemma roe_json_load: "raises_only_Exception (io_lift (json_load js txt))"
  by (auto simp: raises_only_Exception_def io_lift_def json_load_def split: sum.splits)

lemma roe_setitem: "raises_only_Exception (io_lift (setitem obj k v))"
  by (auto simp: raises_only_Exception_def io_lift_def setitem_def split: yaml.splits)

lemma roe_if:
  "raises_only_Exception m \<Longrightarrow> raises_only_Exception k \<Longrightarrow>
     raises_only_Exception (\<lambda>w. if c w then m w else k w)"
  by (simp add: raises_only_Exception_def)

lemma roe_patch_adapter_config:
  "raises_only_Exception (patch_adapter_config js output_dir base_model_id)"
  unfolding patch_adapter_config_def Let_def
  by (intro roe_if roe_bind roe_then roe_print roe_open_read roe_open_write roe_json_load
        roe_setitem)

lemma roe_patch_readme: "raises_only_Exception (patch_readme output_dir base_model_id)"
  unfolding patch_readme_def Let_def
  by (intro roe_if roe_bind roe_then roe_print roe_open_read roe_open_write)

lemma roe_body:
  "raises_only_Exception (patch_model_metadata_body js output_dir base_model_id)"
  unfolding patch_model_metadata_body_def
  by (intro roe_then roe_patch_adapter_config roe_patch_readme)

lemma kss_bind:
  "keeps_stdout_state m \<Longrightarrow> (\<And>x. keeps_stdout_state (f x)) \<Longrightarrow>
     keeps_stdout_state (io_bind m f)"
  unfolding keeps_stdout_state_def io_bind_def
  by (fastforce split: prod.splits sum.splits)

lemma kss_then:
  "keeps_stdout_state m \<Longrightarrow> keeps_stdout_state k \<Longrightarrow> keeps_stdout_state (io_then m k)"
  by (simp add: io_then_def kss_bind)

lemma kss_print: "keeps_stdout_state (print line)"
  by (auto simp: keeps_stdout_state_def print_def split: stream_state.splits)

lemma kss_lift: "keeps_stdout_state (io_lift r)"
  by (simp add: keeps_stdout_state_def io_lift_def)

lemma kss_open_read: "keeps_stdout_state (open_read p)"
  by (auto simp: keeps_stdout_state_def open_read_def split: option.splits node.splits if_splits)

lemma kss_open_write: "keeps_stdout_state (open_write p txt)"
  by (auto simp: keeps_stdout_state_def open_write_def split: if_splits)

lemma kss_if:
  "keeps_stdout_state m \<Longrightarrow> keeps_stdout_state k \<Longrightarrow>
     keeps_stdout_state (\<lambda>w. if c w then m w else k w)"
  by (simp add: keeps_stdout_state_def)

lemma kss_body:
  "keeps_stdout_state (patch_model_metadata_body js output_dir base_model_id)"
  unfolding patch_model_metadata_body_def patch_adapter_config_def patch_readme_def Let_def
  by (intro kss_then kss_if kss_bind kss_print kss_open_read kss_open_write kss_lift)

text \<open>
  Claim C9, amended. As long as standard output is open, \<open>patch_model_metadata\<close> returns
  normally for every output directory, model identifier and state of the file system
  (missing files, unreadable or unwritable files, a directory in the place of a file, a
  malformed or non-mapping JSON sidecar); when its body raised, the failure is printed and
  the world is left as the body left it.
\<close>

theorem patch_model_metadata_returns_while_stdout_open:
  assumes "stdout_state w = StreamOpen"
  shows "patch_model_metadata js output_dir base_model_id w =
     (Inr (),
      case patch_model_metadata_body js output_dir base_model_id w of
        (Inl e, w') \<Rightarrow> w'\<lparr>stdout := stdout w' @ [''Error updating metadata: '' @ str_error e]\<rparr>
      | (Inr u, w') \<Rightarrow> w')"
proof (cases "patch_model_metadata_body js output_dir base_model_id w")
  case (Pair r w')
  have "stdout_state w' = StreamOpen"
    using kss_body [of js output_dir base_model_id] Pair assms
    unfolding keeps_stdout_state_def by metis
  moreover have "is_Exception e" if "r = Inl e" for e
    using roe_body [of js output_dir base_model_id] Pair that
    unfolding raises_only_Exception_def by blast
  ultimately show ?thesis
    using Pair
    by (cases r) (simp_all add: patch_model_metadata_def try_except_Exception_def print_def)
qed

text \<open>
  An output directory whose adapter configuration cannot be read: the failure is printed
  and the call returns.
\<close>

theorem patch_model_metadata_returns_while_stdout_open_witness:
  "stdout_state example_patch_world = StreamOpen
   \<and> fst (patch_model_metadata (json example_env) ''/out'' ''org/model'' example_patch_world)
       = Inr ()
   \<and> stdout (snd (patch_model_metadata (json example_env) ''/out'' ''org/model''
                    example_patch_world))
       = [''Error updating metadata: Permission denied: /out/adapter_config.json'']"
proof -
  have o: "stdout_state example_patch_world = StreamOpen"
    by (simp add: example_patch_world_def)
  have "fst (patch_model_metadata (json example_env) ''/out'' ''org/model'' example_patch_world)
          = Inr ()"
    using patch_model_metadata_returns_while_stdout_open [OF o] by simp
  moreover have "stdout (snd (patch_model_metadata (json example_env) ''/out'' ''org/model''
                    example_patch_world))
       = [''Error updating metadata: Permission denied: /out/adapter_config.json'']"
    by code_simp
  ultimately show ?thesis using o by blast
qed

text \<open>
  With standard output closed the handler's own \<^verbatim>\<open>print\<close>, which no \<^verbatim>\<open>try\<close> guards,
  raises, and the exception reaches the caller.
\<close>

theorem patch_model_metadata_raises_when_stdout_closed:
  "fst (patch_model_metadata (json example_env) ''/out'' ''org/model''
          (example_patch_world\<lparr>stdout_state := StreamClosed\<rparr>))
     = Inl (ValueError ''I/O operation on closed file.'')"
  by code_simp

subsection \<open>The configuration document\<close>

lemma io_bind_InrE:
  assumes "io_bind m f w = (Inr y, w')"
  obtains x w1 where "m w = (Inr x, w1)" and "f x w1 = (Inr y, w')"
  using assms by (auto simp: io_bind_def split: prod.splits sum.splits)

lemma io_then_InrE:
  assumes "io_then m k w = (Inr y, w')"
  obtains x w1 where "m w = (Inr x, w1)" and "k w1 = (Inr y, w')"
  using assms unfolding io_then_def by (rule io_bind_InrE)

lemma io_lift_InrD: "io_lift r w = (Inr x, w') \<Longrightarrow> r = Inr x \<and> w' = w"
  by (simp add: io_lift_def)

lemma call_InrD: "call r w = (Inr x, w') \<Longrightarrow> r = Inr x \<and> w' = w"
  by (auto simp: call_def io_lift_def split: sum.splits)

lemma io_return_InrD: "io_return x w = (Inr y, w') \<Longrightarrow> y = x \<and> w' = w"
  by (simp add: io_return_def)

lemma ksc_bind:
  "keeps_saved_configs m \<Longrightarrow> (\<And>x. keeps_saved_configs (f x)) \<Longrightarrow> keeps_saved_configs (io_bind m f)"
  unfolding keeps_saved_configs_def io_bind_def
  by (fastforce split: prod.splits sum.splits)

lemma ksc_then:
  "keeps_saved_configs m \<Longrightarrow> keeps_saved_configs k \<Longrightarrow> keeps_saved_configs (io_then m k)"
  by (simp add: io_then_def ksc_bind)

lemma ksc_lift: "keeps_saved_configs (io_lift r)"
  by (simp add: keeps_saved_configs_def io_lift_def)

lemma ksc_call: "keeps_saved_configs (call r)"
  by (simp add: call_def ksc_lift)

lemma ksc_return: "keeps_saved_configs (io_return x)"
  by (simp add: keeps_saved_configs_def io_return_def)

lemma ksc_open_read: "keeps_saved_configs (open_read p)"
  by (auto simp: keeps_saved_configs_def open_read_def split: option.splits node.splits if_splits)

lemma ksc_open_write: "keeps_saved_configs (open_write p txt)"
  by (auto simp: keeps_saved_configs_def open_write_def split: if_splits)

lemma ksc_os_makedirs: "keeps_saved_configs (os_makedirs p)"
  by (auto simp: keeps_saved_configs_def os_makedirs_def split: option.splits node.splits if_splits)

lemma ksc_config_wandb:
  "keeps_saved_configs (config_wandb env task_id expected_repo_name log_wandb config)"
  unfolding config_wandb_def Let_def
  by (auto intro!: ksc_then ksc_return ksc_os_makedirs)

lemma ksc_create_reward_funcs_file:
  "keeps_saved_configs (create_reward_funcs_file env reward_funcs task_id destination_dir)"
  unfolding create_reward_funcs_file_def Let_def
  by (intro ksc_then ksc_return ksc_open_write)

lemma ksc_config_rl: "keeps_saved_configs (config_rl env task_id dataset_type config)"
  unfolding config_rl_def
  by (cases dataset_type)
     (auto intro!: ksc_bind ksc_lift ksc_return ksc_create_reward_funcs_file)

lemma ksc_config_before_datasets:
  "keeps_saved_configs (config_before_datasets env task_id model dataset dataset_type file_format
      output_dir expected_repo_name log_wandb)"
  unfolding config_before_datasets_def
  by (intro ksc_bind ksc_then ksc_lift ksc_call ksc_open_read ksc_os_makedirs ksc_config_wandb
        ksc_config_rl)

lemma config_finish_Inr:
  assumes "config_finish env task_id model dataset_type config w = (Inr config_path, w')"
  obtains tok customized where
    "AutoTokenizer_from_pretrained env (get_text_base_model_path env model) = Inr tok"
    and "customize_config env (config_special_tokens tok config) (task_type_of dataset_type)
           (get_text_base_model_path env model) model = Inr customized"
    and "saved_configs w' =
           saved_configs w @ [(config_path, AList.update ''val_set_size'' (YInt 0) customized)]"
proof -
  from assms obtain tok w1 where
    t: "call (AutoTokenizer_from_pretrained env (get_text_base_model_path env model)) w = (Inr tok, w1)"
    and r1: "io_bind (call (customize_config env (config_special_tokens tok config)
                       (task_type_of dataset_type) (get_text_base_model_path env model) model)) (\<lambda>customized.
      io_bind (io_lift (getitem (AXOLOTL_DIRECTORIES env) ''configs'')) (\<lambda>configs_dir.
      (let config_path = os_path_join configs_dir (task_id @ ''.yml'') in
       io_then (save_config (AList.update ''val_set_size'' (YInt 0) customized) config_path)
               (io_return config_path)))) w1 = (Inr config_path, w')"
    unfolding config_finish_def Let_def by (erule io_bind_InrE)
  from r1 obtain customized w2 where
    c: "call (customize_config env (config_special_tokens tok config)
                       (task_type_of dataset_type) (get_text_base_model_path env model) model) w1 = (Inr customized, w2)"
    and r2: "io_bind (io_lift (getitem (AXOLOTL_DIRECTORIES env) ''configs'')) (\<lambda>configs_dir.
      (let config_path = os_path_join configs_dir (task_id @ ''.yml'') in
       io_then (save_config (AList.update ''val_set_size'' (YInt 0) customized) config_path)
               (io_return config_path))) w2 = (Inr config_path, w')"
    by (erule io_bind_InrE)
  from r2 obtain configs_dir w3 where
    g: "io_lift (getitem (AXOLOTL_DIRECTORIES env) ''configs'') w2 = (Inr configs_dir, w3)"
    and r3: "io_then (save_config (AList.update ''val_set_size'' (YInt 0) customized)
                        (os_path_join configs_dir (task_id @ ''.yml'')))
               (io_return (os_path_join configs_dir (task_id @ ''.yml''))) w3 = (Inr config_path, w')"
    unfolding Let_def by (erule io_bind_InrE)
  from r3 obtain u w4 where
    s: "save_config (AList.update ''val_set_size'' (YInt 0) customized)
          (os_path_join configs_dir (task_id @ ''.yml'')) w3 = (Inr u, w4)"
    and r4: "io_return (os_path_join configs_dir (task_id @ ''.yml'')) w4 = (Inr config_path, w')"
    by (erule io_then_InrE)
  have w: "w1 = w" "w2 = w" "w3 = w" "w' = w4"
    and p: "config_path = os_path_join configs_dir (task_id @ ''.yml'')"
    using call_InrD [OF t] call_InrD [OF c] io_lift_InrD [OF g] io_return_InrD [OF r4] by simp_all
  have "saved_configs w4 =
          saved_configs w @ [(config_path, AList.update ''val_set_size'' (YInt 0) customized)]"
    using s w p by (auto simp: save_config_def split: if_splits)
  then show ?thesis
    using that call_InrD [OF t] call_InrD [OF c] w by simp
qed

lemma create_config_Inr:
  assumes "create_config env task_id model dataset dataset_type file_format output_dir
             expected_repo_name log_wandb w = (Inr config_path, w')"
  obtains config config' w1 where
    "config_before_datasets env task_id model dataset dataset_type file_format output_dir
       expected_repo_name log_wandb w = (Inr config, w1)"
    and "saved_configs w1 = saved_configs w"
    and "config_datasets env dataset file_format config = Inr config'"
    and "config_finish env task_id model dataset_type config' w1 = (Inr config_path, w')"
proof -
  from assms obtain config w1 where
    b: "config_before_datasets env task_id model dataset dataset_type file_format output_dir
       expected_repo_name log_wandb w = (Inr config, w1)"
    and r1: "io_bind (io_lift (config_datasets env dataset file_format config)) (\<lambda>config'.
     config_finish env task_id model dataset_type config') w1 = (Inr config_path, w')"
    unfolding create_config_def by (erule io_bind_InrE)
  from r1 obtain config' w2 where
    d: "io_lift (config_datasets env dataset file_format config) w1 = (Inr config', w2)"
    and f: "config_finish env task_id model dataset_type config' w2 = (Inr config_path, w')"
    by (erule io_bind_InrE)
  have "saved_configs w1 = saved_configs w"
    using ksc_config_before_datasets b unfolding keeps_saved_configs_def by blast
  then show ?thesis
    using that b f io_lift_InrD [OF d] by simp
qed

text \<open>
  Claim C8. Whatever the task type and the other inputs, a run of \<open>create_config\<close> that
  returns hands exactly one document to \<^verbatim>\<open>save_config\<close>, under the path it returns, and
  in that document \<open>val_set_size\<close> is 0.
\<close>

theorem create_config_val_set_size_zero:
  assumes "create_config env task_id model dataset dataset_type file_format output_dir
             expected_repo_name log_wandb w = (Inr config_path, w')"
  shows "\<exists>document. saved_configs w' = saved_configs w @ [(config_path, document)]
           \<and> map_of document ''val_set_size'' = Some (YInt 0)"
proof -
  from assms obtain config config' w1 where
    "config_datasets env dataset file_format config = Inr config'"
    and s: "saved_configs w1 = saved_configs w"
    and f: "config_finish env task_id model dataset_type config' w1 = (Inr config_path, w')"
    by (rule create_config_Inr)
  from f obtain customized where
    "saved_configs w' =
       saved_configs w1 @ [(config_path, AList.update ''val_set_size'' (YInt 0) customized)]"
    by (rule config_finish_Inr)
  then show ?thesis
    using s by (simp add: AList.update_conv')
qed


lemma config_before_datasets_Inr:
  assumes "config_before_datasets env task_id model dataset dataset_type file_format output_dir
             expected_repo_name log_wandb w = (Inr config, w')"
  obtains config3 w3 where "config_rl env task_id dataset_type config3 w3 = (Inr config, w')"
  using assms unfolding config_before_datasets_def
  by (elim io_bind_InrE io_then_InrE) blast

lemma config_rl_Grpo_Inr:
  assumes "config_rl env task_id (GrpoDatasetType reward_functions validated) config w
             = (Inr config', w')"
  shows "config_trl (reward_module_name env task_id)
           (map (\<lambda>(i, src). reward_function_name env i src)
              (enumerate 0 (map reward_func reward_functions)))
           reward_functions config = Inr config'"
proof -
  from assms obtain destination_dir w1 r w2 where
    c: "create_reward_funcs_file env (map reward_func reward_functions) task_id destination_dir w1
          = (Inr r, w2)"
    and t: "(case r of (filename, reward_funcs_names) \<Rightarrow>
              io_lift (config_trl filename reward_funcs_names reward_functions config)) w2
            = (Inr config', w')"
    unfolding config_rl_def by (auto elim!: io_bind_InrE)
  from c have "r = (reward_module_name env task_id,
                    map (\<lambda>(i, src). reward_function_name env i src)
                      (enumerate 0 (map reward_func reward_functions)))"
    unfolding create_reward_funcs_file_def Let_def
    by (auto elim!: io_then_InrE dest: io_return_InrD)
  with t show ?thesis by (auto dest: io_lift_InrD)
qed

lemma config_trl_Inr:
  assumes "config_trl filename names reward_functions config = Inr config'"
  obtains trl where "map_of config' ''trl'' = Some (YDict trl)"
    and "map_of trl ''reward_funcs'' = Some (YList (map (\<lambda>n. YStr (filename @ ''.'' @ n)) names))"
    and "map_of trl ''reward_weights''
           = Some (YList (map (\<lambda>rf. YFloat (reward_weight rf)) reward_functions))"
  using assms unfolding config_trl_def getitem_def as_dict_def
  by (auto simp: AList.update_conv' split: option.splits yaml.splits sum.splits)

lemma config_datasets_other_keys:
  assumes "config_datasets env dataset file_format config = Inr config'"
    and "key \<noteq> ''datasets''"
  shows "map_of config' key = map_of config key"
  using assms unfolding config_datasets_def
  by (auto simp: AList.update_conv' split: if_splits sum.splits yaml.splits)

lemma config_special_tokens_other_keys:
  "key \<noteq> ''special_tokens'' \<Longrightarrow> map_of (config_special_tokens tok config) key = map_of config key"
  by (simp add: config_special_tokens_def AList.update_conv')

text \<open>The produced document in terms of the document after line 169.\<close>

lemma create_config_document:
  assumes "create_config env task_id model dataset dataset_type file_format output_dir
             expected_repo_name log_wandb w = (Inr config_path, w')"
  obtains config w1 config' tok customized where
    "config_before_datasets env task_id model dataset dataset_type file_format output_dir
       expected_repo_name log_wandb w = (Inr config, w1)"
    and "config_datasets env dataset file_format config = Inr config'"
    and "AutoTokenizer_from_pretrained env (get_text_base_model_path env model) = Inr tok"
    and "customize_config env (config_special_tokens tok config') (task_type_of dataset_type)
           (get_text_base_model_path env model) model = Inr customized"
    and "saved_configs w' =
           saved_configs w @ [(config_path, AList.update ''val_set_size'' (YInt 0) customized)]"
proof -
  from assms obtain config config' w1 where
    b: "config_before_datasets env task_id model dataset dataset_type file_format output_dir
       expected_repo_name log_wandb w = (Inr config, w1)"
    and s: "saved_configs w1 = saved_configs w"
    and d: "config_datasets env dataset file_format config = Inr config'"
    and f: "config_finish env task_id model dataset_type config' w1 = (Inr config_path, w')"
    by (rule create_config_Inr)
  from f obtain tok customized where
    "AutoTokenizer_from_pretrained env (get_text_base_model_path env model) = Inr tok"
    and "customize_config env (config_special_tokens tok config') (task_type_of dataset_type)
           (get_text_base_model_path env model) model = Inr customized"
    and "saved_configs w' =
           saved_configs w1 @ [(config_path, AList.update ''val_set_size'' (YInt 0) customized)]"
    by (rule config_finish_Inr)
  then show ?thesis using that b d s by simp
qed

text \<open>
  Claim C5. For a GRPO dataset type with N reward functions, the persisted document's
  \<open>trl.reward_funcs\<close> and \<open>trl.reward_weights\<close> both have length N; reference \<open>i\<close> is the
  generated module's name, a dot, and the name generated for source \<open>i\<close>, and weight \<open>i\<close>
  is the weight of pair \<open>i\<close>. \<^verbatim>\<open>customize_config\<close> is taken to leave the two lists alone.
\<close>

theorem create_config_grpo_reward_lists:
  assumes run: "create_config env task_id model dataset (GrpoDatasetType reward_functions validated)
             file_format output_dir expected_repo_name log_wandb w = (Inr config_path, w')"
    and keeps: "customize_config_keeps_reward_lists env"
  shows "\<exists>document trl funcs weights.
           saved_configs w' = saved_configs w @ [(config_path, document)]
         \<and> map_of document ''trl'' = Some (YDict trl)
         \<and> map_of trl ''reward_funcs'' = Some (YList funcs)
         \<and> map_of trl ''reward_weights'' = Some (YList weights)
         \<and> length funcs = length reward_functions
         \<and> length weights = length reward_functions
         \<and> (\<forall>i < length reward_functions.
               funcs ! i = YStr (reward_module_name env task_id @ ''.''
                                 @ reward_function_name env i (reward_func (reward_functions ! i)))
             \<and> weights ! i = YFloat (reward_weight (reward_functions ! i)))"
proof -
  let ?names = "map (\<lambda>(i, src). reward_function_name env i src)
                  (enumerate 0 (map reward_func reward_functions))"
  let ?funcs = "map (\<lambda>n. YStr (reward_module_name env task_id @ ''.'' @ n)) ?names"
  let ?weights = "map (\<lambda>rf. YFloat (reward_weight rf)) reward_functions"
  from run obtain config w1 config' tok customized where
    b: "config_before_datasets env task_id model dataset (GrpoDatasetType reward_functions validated)
          file_format output_dir expected_repo_name log_wandb w = (Inr config, w1)"
    and d: "config_datasets env dataset file_format config = Inr config'"
    and c: "customize_config env (config_special_tokens tok config')
              (task_type_of (GrpoDatasetType reward_functions validated))
              (get_text_base_model_path env model) model = Inr customized"
    and s: "saved_configs w' =
              saved_configs w @ [(config_path, AList.update ''val_set_size'' (YInt 0) customized)]"
    by (rule create_config_document)
  from b obtain config3 w3 where
    "config_rl env task_id (GrpoDatasetType reward_functions validated) config3 w3 = (Inr config, w1)"
    by (rule config_before_datasets_Inr)
  then have "config_trl (reward_module_name env task_id) ?names reward_functions config3 = Inr config"
    by (rule config_rl_Grpo_Inr)
  then obtain trl where trl: "map_of config ''trl'' = Some (YDict trl)"
    and f: "map_of trl ''reward_funcs'' = Some (YList ?funcs)"
    and ws: "map_of trl ''reward_weights'' = Some (YList ?weights)"
    by (rule config_trl_Inr)
  have "map_of (config_special_tokens tok config') ''trl'' = Some (YDict trl)"
    using config_datasets_other_keys [OF d, of "''trl''"] trl
    by (simp add: config_special_tokens_other_keys)
  with keeps c obtain trl' where "map_of customized ''trl'' = Some (YDict trl')"
    and f': "map_of trl' ''reward_funcs'' = map_of trl ''reward_funcs''"
    and ws': "map_of trl' ''reward_weights'' = map_of trl ''reward_weights''"
    unfolding customize_config_keeps_reward_lists_def by blast
  then have doc: "map_of (AList.update ''val_set_size'' (YInt 0) customized) ''trl''
                    = Some (YDict trl')"
    by (simp add: AList.update_conv')
  have idx: "\<forall>i < length reward_functions.
               ?funcs ! i = YStr (reward_module_name env task_id @ ''.''
                                 @ reward_function_name env i (reward_func (reward_functions ! i)))
             \<and> ?weights ! i = YFloat (reward_weight (reward_functions ! i))"
    by (simp add: nth_enumerate_eq)
  have len: "length ?funcs = length reward_functions" "length ?weights = length reward_functions"
    by simp_all
  show ?thesis
    using s doc f ws f' ws' len idx by metis
qed


text \<open>
  Claim C6, amended. When the tokenizer has no pad token id but an end-of-sequence token
  id, the persisted document's \<open>special_tokens\<close> is exactly \<open>{pad_token: eos_token}\<close>. In
  every other case (both tokens present, or no end-of-sequence token) \<open>create_config\<close>
  writes no \<open>special_tokens\<close> of its own and removes none: the document keeps the entry
  it held after line 169, which is the one the base template carried through
  \<^verbatim>\<open>update_flash_attention\<close>, and has none only if it had none there. No other token is
  ever written. \<^verbatim>\<open>customize_config\<close> is taken to leave \<open>special_tokens\<close> alone.
\<close>

theorem create_config_pad_token:
  assumes run: "create_config env task_id model dataset dataset_type file_format output_dir
             expected_repo_name log_wandb w = (Inr config_path, w')"
    and before: "config_before_datasets env task_id model dataset dataset_type file_format
             output_dir expected_repo_name log_wandb w = (Inr config, w1)"
    and tok: "AutoTokenizer_from_pretrained env (get_text_base_model_path env model) = Inr tok"
    and keeps: "customize_config_keeps env ''special_tokens''"
  shows "\<exists>document.
           saved_configs w' = saved_configs w @ [(config_path, document)]
         \<and> map_of document ''special_tokens'' =
             (if pad_token_id tok = None \<and> eos_token_id tok \<noteq> None
              then Some (YDict [(''pad_token'', yaml_of_optional (eos_token tok))])
              else map_of config ''special_tokens'')"
proof -
  from run obtain config0 w0 config' tok0 customized where
    b: "config_before_datasets env task_id model dataset dataset_type
          file_format output_dir expected_repo_name log_wandb w = (Inr config0, w0)"
    and d: "config_datasets env dataset file_format config0 = Inr config'"
    and t: "AutoTokenizer_from_pretrained env (get_text_base_model_path env model) = Inr tok0"
    and c: "customize_config env (config_special_tokens tok0 config') (task_type_of dataset_type)
              (get_text_base_model_path env model) model = Inr customized"
    and s: "saved_configs w' =
              saved_configs w @ [(config_path, AList.update ''val_set_size'' (YInt 0) customized)]"
    by (rule create_config_document)
  have eq: "config0 = config" "tok0 = tok" using b before t tok by simp_all
  have "map_of customized ''special_tokens'' = map_of (config_special_tokens tok config') ''special_tokens''"
    using keeps c eq unfolding customize_config_keeps_def by blast
  moreover have "map_of config' ''special_tokens'' = map_of config ''special_tokens''"
    using config_datasets_other_keys [OF d, of "''special_tokens''"] eq by simp
  ultimately have "map_of (AList.update ''val_set_size'' (YInt 0) customized) ''special_tokens'' =
             (if pad_token_id tok = None \<and> eos_token_id tok \<noteq> None
              then Some (YDict [(''pad_token'', yaml_of_optional (eos_token tok))])
              else map_of config ''special_tokens'')"
    by (simp add: AList.update_conv' config_special_tokens_def)
  with s show ?thesis by blast
qed

lemma rewrite_dataset_entry_Inr:
  assumes "rewrite_dataset_entry env dataset ds = Inr ds'"
  obtains kvs kvs' where "ds = YDict kvs" and "ds' = YDict kvs'"
    and "map_of kvs' ''ds_type'' = Some (YStr ''json'')"
    and "map_of kvs' ''data_files'' = Some (YList [YStr (os_path_basename dataset)])"
    and "''path'' \<in> fst ` set kvs \<longrightarrow>
           (\<exists>data_dir. map_of (AXOLOTL_DIRECTORIES env) ''data'' = Some data_dir
                    \<and> map_of kvs' ''path'' = Some (YStr data_dir))"
    and "''path'' \<notin> fst ` set kvs \<longrightarrow> map_of kvs' ''path'' = None"
proof -
  from assms obtain kvs where ds: "ds = YDict kvs"
    by (auto simp: rewrite_dataset_entry_def as_dict_def split: yaml.splits)
  show ?thesis
  proof (cases "''path'' \<in> fst ` set kvs")
    case True
    then obtain data_dir where dd: "map_of (AXOLOTL_DIRECTORIES env) ''data'' = Some data_dir"
      using assms ds
      by (auto simp: rewrite_dataset_entry_def as_dict_def getitem_def AList.dom_update Let_def
            split: option.splits)
    have "ds' = YDict (AList.update ''data_files'' (YList [YStr (os_path_basename dataset)])
                 (AList.update ''path'' (YStr data_dir)
                   (AList.update ''ds_type'' (YStr ''json'') kvs)))"
      using assms ds True dd
      by (auto simp: rewrite_dataset_entry_def as_dict_def getitem_def AList.dom_update Let_def)
    then show ?thesis
      using that [OF ds, of "AList.update ''data_files'' (YList [YStr (os_path_basename dataset)])
                 (AList.update ''path'' (YStr data_dir)
                   (AList.update ''ds_type'' (YStr ''json'') kvs))"] True dd
      by (simp add: AList.update_conv')
  next
    case False
    have "ds' = YDict (AList.update ''data_files'' (YList [YStr (os_path_basename dataset)])
                   (AList.update ''ds_type'' (YStr ''json'') kvs))"
      using assms ds False
      by (auto simp: rewrite_dataset_entry_def as_dict_def AList.dom_update Let_def)
    moreover have "map_of kvs ''path'' = None"
      using False by (simp add: map_of_eq_None_iff)
    ultimately show ?thesis
      using that [OF ds, of "AList.update ''data_files'' (YList [YStr (os_path_basename dataset)])
                   (AList.update ''ds_type'' (YStr ''json'') kvs)"] False
      by (simp add: AList.update_conv')
  qed
qed

lemma rewrite_dataset_entries_Inr:
  "rewrite_dataset_entries env dataset entries = Inr entries' \<Longrightarrow>
     length entries' = length entries
     \<and> (\<forall>i < length entries. rewrite_dataset_entry env dataset (entries ! i) = Inr (entries' ! i))"
proof (induction entries arbitrary: entries')
  case Nil
  then show ?case by simp
next
  case (Cons ds rest)
  then obtain ds' rest' where 1: "rewrite_dataset_entry env dataset ds = Inr ds'"
    and 2: "rewrite_dataset_entries env dataset rest = Inr rest'"
    and 3: "entries' = ds' # rest'"
    by (auto split: sum.splits)
  show ?case
    using Cons.IH [OF 2] 1 3 by (auto simp: nth_Cons')
qed

text \<open>The dataset entries of the produced document, for a format other than \<open>hf\<close>.\<close>

lemma create_config_dataset_entries:
  assumes run: "create_config env task_id model dataset dataset_type file_format output_dir
             expected_repo_name log_wandb w = (Inr config_path, w')"
    and before: "config_before_datasets env task_id model dataset dataset_type file_format
             output_dir expected_repo_name log_wandb w = (Inr config, w1)"
    and entries: "map_of config ''datasets'' = Some (YList entries)"
    and fmt: "file_format \<noteq> ''hf''"
    and keeps: "customize_config_keeps env ''datasets''"
  obtains document entries' where
    "saved_configs w' = saved_configs w @ [(config_path, document)]"
    and "map_of document ''datasets'' = Some (YList entries')"
    and "length entries' = length entries"
    and "\<forall>i < length entries. rewrite_dataset_entry env dataset (entries ! i) = Inr (entries' ! i)"
proof -
  from run obtain config0 w0 config' tok customized where
    b: "config_before_datasets env task_id model dataset dataset_type
          file_format output_dir expected_repo_name log_wandb w = (Inr config0, w0)"
    and d: "config_datasets env dataset file_format config0 = Inr config'"
    and c: "customize_config env (config_special_tokens tok config') (task_type_of dataset_type)
              (get_text_base_model_path env model) model = Inr customized"
    and s: "saved_configs w' =
              saved_configs w @ [(config_path, AList.update ''val_set_size'' (YInt 0) customized)]"
    by (rule create_config_document)
  have eq: "config0 = config" using b before by simp
  from d entries fmt eq obtain entries' where
    r: "rewrite_dataset_entries env dataset entries = Inr entries'"
    and c': "config' = AList.update ''datasets'' (YList entries') config"
    by (auto simp: config_datasets_def getitem_def split: sum.splits)
  have "map_of customized ''datasets'' = map_of (config_special_tokens tok config') ''datasets''"
    using keeps c unfolding customize_config_keeps_def by blast
  then have "map_of (AList.update ''val_set_size'' (YInt 0) customized) ''datasets''
               = Some (YList entries')"
    using c' by (simp add: AList.update_conv' config_special_tokens_other_keys)
  then show ?thesis
    using that s rewrite_dataset_entries_Inr [OF r] by blast
qed

text \<open>
  Claim C10. For every file format other than \<open>hf\<close> (so for \<open>s3\<close> as well as \<open>csv\<close> and
  \<open>json\<close>), every dataset entry of the persisted document has \<open>ds_type\<close> \<open>json\<close> and the
  file list \<open>[basename(dataset)]\<close>; an entry that had a \<open>path\<close> field has it replaced by
  the local data directory, and an entry that had none has none. \<^verbatim>\<open>customize_config\<close> is
  taken to leave \<open>datasets\<close> alone.
\<close>

theorem create_config_rewrites_every_entry_unless_hf:
  assumes run: "create_config env task_id model dataset dataset_type file_format output_dir
             expected_repo_name log_wandb w = (Inr config_path, w')"
    and before: "config_before_datasets env task_id model dataset dataset_type file_format
             output_dir expected_repo_name log_wandb w = (Inr config, w1)"
    and entries: "map_of config ''datasets'' = Some (YList entries)"
    and fmt: "file_format \<noteq> ''hf''"
    and keeps: "customize_config_keeps env ''datasets''"
  shows "\<exists>document entries'.
           saved_configs w' = saved_configs w @ [(config_path, document)]
         \<and> map_of document ''datasets'' = Some (YList entries')
         \<and> length entries' = length entries
         \<and> (\<forall>i < length entries. \<exists>kvs kvs'.
               entries ! i = YDict kvs \<and> entries' ! i = YDict kvs'
             \<and> map_of kvs' ''ds_type'' = Some (YStr ''json'')
             \<and> map_of kvs' ''data_files'' = Some (YList [YStr (os_path_basename dataset)])
             \<and> (if ''path'' \<in> fst ` set kvs
                then \<exists>data_dir. map_of (AXOLOTL_DIRECTORIES env) ''data'' = Some data_dir
                               \<and> map_of kvs' ''path'' = Some (YStr data_dir)
                else map_of kvs' ''path'' = None))"
proof -
  from assms obtain document entries' where
    s: "saved_configs w' = saved_configs w @ [(config_path, document)]"
    and d: "map_of document ''datasets'' = Some (YList entries')"
    and l: "length entries' = length entries"
    and r: "\<forall>i < length entries. rewrite_dataset_entry env dataset (entries ! i) = Inr (entries' ! i)"
    by (rule create_config_dataset_entries)
  have "\<exists>kvs kvs'.
               entries ! i = YDict kvs \<and> entries' ! i = YDict kvs'
             \<and> map_of kvs' ''ds_type'' = Some (YStr ''json'')
             \<and> map_of kvs' ''data_files'' = Some (YList [YStr (os_path_basename dataset)])
             \<and> (if ''path'' \<in> fst ` set kvs
                then \<exists>data_dir. map_of (AXOLOTL_DIRECTORIES env) ''data'' = Some data_dir
                               \<and> map_of kvs' ''path'' = Some (YStr data_dir)
                else map_of kvs' ''path'' = None)" if "i < length entries" for i
  proof -
    from r that have "rewrite_dataset_entry env dataset (entries ! i) = Inr (entries' ! i)" by simp
    then show ?thesis by (rule rewrite_dataset_entry_Inr) auto
  qed
  with s d l show ?thesis by blast
qed

text \<open>
  Claim C7, amended. For the file formats \<open>csv\<close> and \<open>json\<close>, every dataset entry of the
  persisted document has exactly the input file's base name as its file list; an entry
  that had a \<open>path\<close> field has it replaced by the local data directory, and an entry that
  had none still has none. \<^verbatim>\<open>customize_config\<close> is taken to leave \<open>datasets\<close> alone.
\<close>

theorem create_config_csv_json_entries:
  assumes run: "create_config env task_id model dataset dataset_type file_format output_dir
             expected_repo_name log_wandb w = (Inr config_path, w')"
    and before: "config_before_datasets env task_id model dataset dataset_type file_format
             output_dir expected_repo_name log_wandb w = (Inr config, w1)"
    and entries: "map_of config ''datasets'' = Some (YList entries)"
    and fmt: "file_format = ''csv'' \<or> file_format = ''json''"
    and keeps: "customize_config_keeps env ''datasets''"
  shows "\<exists>document entries'.
           saved_configs w' = saved_configs w @ [(config_path, document)]
         \<and> map_of document ''datasets'' = Some (YList entries')
         \<and> length entries' = length entries
         \<and> (\<forall>i < length entries. \<exists>kvs kvs'.
               entries ! i = YDict kvs \<and> entries' ! i = YDict kvs'
             \<and> map_of kvs' ''data_files'' = Some (YList [YStr (os_path_basename dataset)])
             \<and> (if ''path'' \<in> fst ` set kvs
                then \<exists>data_dir. map_of (AXOLOTL_DIRECTORIES env) ''data'' = Some data_dir
                               \<and> map_of kvs' ''path'' = Some (YStr data_dir)
                else map_of kvs' ''path'' = None))"
proof -
  have not_hf: "file_format \<noteq> ''hf''" using fmt by auto
  from run before entries not_hf keeps obtain document entries' where
    s: "saved_configs w' = saved_configs w @ [(config_path, document)]"
    and d: "map_of document ''datasets'' = Some (YList entries')"
    and l: "length entries' = length entries"
    and r: "\<forall>i < length entries. rewrite_dataset_entry env dataset (entries ! i) = Inr (entries' ! i)"
    by (rule create_config_dataset_entries)
  have "\<exists>kvs kvs'.
               entries ! i = YDict kvs \<and> entries' ! i = YDict kvs'
             \<and> map_of kvs' ''data_files'' = Some (YList [YStr (os_path_basename dataset)])
             \<and> (if ''path'' \<in> fst ` set kvs
                then \<exists>data_dir. map_of (AXOLOTL_DIRECTORIES env) ''data'' = Some data_dir
                               \<and> map_of kvs' ''path'' = Some (YStr data_dir)
                else map_of kvs' ''path'' = None)" if "i < length entries" for i
  proof -
    from r that have "rewrite_dataset_entry env dataset (entries ! i) = Inr (entries' ! i)" by simp
    then show ?thesis by (rule rewrite_dataset_entry_Inr) auto
  qed
  with s d l show ?thesis by blast
qed

subsection \<open>The orchestration\<close>

lemma patched_init_appends_one:
  "\<exists>cb. patched_init c kwargs_callbacks
            = (case kwargs_callbacks of None \<Rightarrow> [] | Some given \<Rightarrow> given) @ [cb]
        \<and> callback_end_time cb = Some (captured_end_time c)
        \<and> (is_GRPO_callback cb \<longleftrightarrow> captured_original_task_type c = ''GrpoTask'')
        \<and> (is_standard_callback cb \<longleftrightarrow> captured_original_task_type c \<noteq> ''GrpoTask'')"
  by (auto simp: patched_init_def Let_def)

lemma main_train_Inr:
  assumes "main_train env p a submission working config_path w = (Inr trainers, w')"
  obtains deadline w_cli constructions where
    "compute_end_time env p a = Inr deadline"
    and "do_cli env config_path w_cli = (Inr constructions, w')"
    and "last (stdout w_cli) = ''end_time:  '' @ deadline"
    and "trainers = map (patched_init \<lparr>captured_original_task_type = args_task_type a,
                            captured_original_model_name = args_model a,
                            captured_end_time = deadline,
                            captured_submission_dir = submission,
                            captured_output_dir = working\<rparr>) constructions"
proof -
  from assms obtain w1 deadline w2 u' w3 constructions w4 where
    e: "io_lift (compute_end_time env p a) w1 = (Inr deadline, w2)"
    and pr: "print (''end_time:  '' @ deadline) w2 = (Inr u', w3)"
    and d: "do_cli env config_path w3 = (Inr constructions, w4)"
    and r: "io_return (map (patched_init \<lparr>captured_original_task_type = args_task_type a,
                            captured_original_model_name = args_model a,
                            captured_end_time = deadline,
                            captured_submission_dir = submission,
                            captured_output_dir = working\<rparr>) constructions) w4 = (Inr trainers, w')"
    unfolding main_train_def by (elim io_bind_InrE io_then_InrE)
  have "last (stdout w3) = ''end_time:  '' @ deadline"
    using pr by (auto simp: print_def split: stream_state.splits)
  then show ?thesis
    using that io_lift_InrD [OF e] d io_return_InrD [OF r] by simp
qed

lemma parse_args_Inr:
  "parse_args env argv w = (Inr a, w') \<Longrightarrow>
     parse_arguments env argv empty_namespace [] = Parsed a \<and> w' = w"
  by (auto simp: parse_args_def io_raise_def io_return_def io_then_def io_bind_def
        split: parse_outcome.splits prod.splits sum.splits)

lemma main_Inr:
  assumes "main env p argv w = (Inr trainers, w')"
  obtains a submission working config_path w1 where
    "parse_arguments env argv empty_namespace [] = Parsed a"
    and "main_train env p a submission working config_path w1 = (Inr trainers, w')"
proof -
  from assms obtain w0 a w0' dirs w1 where
    pa: "parse_args env argv w0 = (Inr a, w0')"
    and t: "(case dirs of (submission, working, config_path) \<Rightarrow>
              io_then (io_when (is_main_process (LOCAL_RANK p)) (main_dataset_and_config env a working))
                (main_train env p a submission working config_path)) w1 = (Inr trainers, w')"
    unfolding main_def by (elim io_bind_InrE io_then_InrE)
  obtain submission working config_path where dirs: "dirs = (submission, working, config_path)"
    by (cases dirs)
  from t obtain w3 where "main_train env p a submission working config_path w3 = (Inr trainers, w')"
    unfolding dirs by (auto elim: io_then_InrE)
  then show ?thesis using that parse_args_Inr [OF pa] by simp
qed

text \<open>
  Claim C3. Every \<^verbatim>\<open>Trainer\<close> constructed during a run gets exactly one callback
  appended to those it was given, chosen by the task type as the parser read it from the
  command line: the GRPO callback if and only if that is \<open>GrpoTask\<close>, the standard
  callback otherwise. The theorem holds for every collaborator, so whatever
  \<^verbatim>\<open>create_config\<close> and \<^verbatim>\<open>customize_config\<close> write into the configuration document has no
  part in the choice.
\<close>

theorem main_callback_variant_by_original_task_type:
  assumes "main env p argv w = (Inr trainers, w')"
  shows "\<exists>a config_path w_cli constructions.
           parse_arguments env argv empty_namespace [] = Parsed a
         \<and> do_cli env config_path w_cli = (Inr constructions, w')
         \<and> length trainers = length constructions
         \<and> (\<forall>i < length constructions. \<exists>cb.
               trainers ! i = (case constructions ! i of None \<Rightarrow> [] | Some given \<Rightarrow> given) @ [cb]
             \<and> (is_GRPO_callback cb \<longleftrightarrow> args_task_type a = ''GrpoTask'')
             \<and> (is_standard_callback cb \<longleftrightarrow> args_task_type a \<noteq> ''GrpoTask''))"
proof -
  from assms obtain a submission working config_path w1 where
    pa: "parse_arguments env argv empty_namespace [] = Parsed a"
    and mt: "main_train env p a submission working config_path w1 = (Inr trainers, w')"
    by (rule main_Inr)
  from mt obtain deadline w_cli constructions where
    d: "do_cli env config_path w_cli = (Inr constructions, w')"
    and t: "trainers = map (patched_init \<lparr>captured_original_task_type = args_task_type a,
                            captured_original_model_name = args_model a,
                            captured_end_time = deadline,
                            captured_submission_dir = submission,
                            captured_output_dir = working\<rparr>) constructions"
    by (rule main_train_Inr)
  have len: "length trainers = length constructions" using t by simp
  have "\<exists>cb. trainers ! i = (case constructions ! i of None \<Rightarrow> [] | Some given \<Rightarrow> given) @ [cb]
             \<and> (is_GRPO_callback cb \<longleftrightarrow> args_task_type a = ''GrpoTask'')
             \<and> (is_standard_callback cb \<longleftrightarrow> args_task_type a \<noteq> ''GrpoTask'')"
    if "i < length constructions" for i
    using that t
      patched_init_appends_one [of "\<lparr>captured_original_task_type = args_task_type a,
                            captured_original_model_name = args_model a,
                            captured_end_time = deadline,
                            captured_submission_dir = submission,
                            captured_output_dir = working\<rparr>" "constructions ! i"]
    by auto
  with pa d len show ?thesis by blast
qed

text \<open>
  Claim C1, amended. In each process the deadline is computed once, from that process's
  own clock reading plus the budget, rendered to whole seconds; this happens before the
  training entry point is called (the line printing it is the last output when \<open>do_cli\<close>
  starts), so before any training step; and every supervisor installed in the process
  holds exactly this value. Nothing passes the value from one process to another: it
  depends on the process through its own clock reading.
\<close>

theorem main_deadline_per_process:
  assumes "main env p argv w = (Inr trainers, w')"
  shows "\<exists>a deadline config_path w_cli constructions.
           parse_arguments env argv empty_namespace [] = Parsed a
         \<and> compute_end_time env p a = Inr deadline
         \<and> deadline = strftime (clock_now p + timedelta_hours env (args_hours_to_complete a))
         \<and> do_cli env config_path w_cli = (Inr constructions, w')
         \<and> last (stdout w_cli) = ''end_time:  '' @ deadline
         \<and> length trainers = length constructions
         \<and> (\<forall>callbacks \<in> set trainers.
               callbacks \<noteq> [] \<and> callback_end_time (last callbacks) = Some deadline)"
proof -
  from assms obtain a submission working config_path w1 where
    pa: "parse_arguments env argv empty_namespace [] = Parsed a"
    and mt: "main_train env p a submission working config_path w1 = (Inr trainers, w')"
    by (rule main_Inr)
  from mt obtain deadline w_cli constructions where
    e: "compute_end_time env p a = Inr deadline"
    and d: "do_cli env config_path w_cli = (Inr constructions, w')"
    and l: "last (stdout w_cli) = ''end_time:  '' @ deadline"
    and t: "trainers = map (patched_init \<lparr>captured_original_task_type = args_task_type a,
                            captured_original_model_name = args_model a,
                            captured_end_time = deadline,
                            captured_submission_dir = submission,
                            captured_output_dir = working\<rparr>) constructions"
    by (rule main_train_Inr)
  have s: "deadline = strftime (clock_now p + timedelta_hours env (args_hours_to_complete a))"
    using e by (auto simp: compute_end_time_def Let_def split: if_splits)
  have "callbacks \<noteq> [] \<and> callback_end_time (last callbacks) = Some deadline"
    if "callbacks \<in> set trainers" for callbacks
  proof -
    from that t obtain kw where "callbacks = patched_init \<lparr>captured_original_task_type = args_task_type a,
                            captured_original_model_name = args_model a,
                            captured_end_time = deadline,
                            captured_submission_dir = submission,
                            captured_output_dir = working\<rparr> kw"
      by auto
    then show ?thesis
      using patched_init_appends_one [of "\<lparr>captured_original_task_type = args_task_type a,
                            captured_original_model_name = args_model a,
                            captured_end_time = deadline,
                            captured_submission_dir = submission,
                            captured_output_dir = working\<rparr>" kw]
      by auto
  qed
  moreover have "length trainers = length constructions" using t by simp
  ultimately show ?thesis using pa e s d l by blast
qed

subsection \<open>Input errors\<close>




















subsection \<open>The concrete run\<close>

lemma example_customize_config_keeps:
  "key \<noteq> ''gradient_checkpointing'' \<Longrightarrow> key \<noteq> ''trl'' \<Longrightarrow>
     customize_config_keeps example_env key"
  by (auto simp: customize_config_keeps_def example_env_def AList.update_conv'
        split: option.splits yaml.splits)

lemma example_customize_config_keeps_reward_lists:
  "customize_config_keeps_reward_lists example_env"
  by (auto simp: customize_config_keeps_reward_lists_def example_env_def AList.update_conv')

lemma example_before_datasets_json:
  "config_before_datasets example_env ''t1'' ''org/model'' ''/axolotl/data/t1.json''
       (GrpoDatasetType example_reward_functions []) ''json'' ''/ck/t1/repo_temp''
       (Some ''repo'') True example_world
     = (Inr (example_config_line_169 ''org/model''), snd (example_before_datasets ''org/model'' ''json''))"
proof -
  have "fst (example_before_datasets ''org/model'' ''json'') = Inr (example_config_line_169 ''org/model'')"
    by code_simp
  then show ?thesis
    unfolding example_before_datasets_def by (simp add: prod_eq_iff)
qed

lemma example_create_config_json:
  "create_config example_env ''t1'' ''org/model'' ''/axolotl/data/t1.json''
       (GrpoDatasetType example_reward_functions []) ''json'' ''/ck/t1/repo_temp''
       (Some ''repo'') True example_world
     = (Inr ''/axolotl/configs/t1.yml'', snd (example_create_config ''org/model'' ''json''))"
proof -
  have "fst (example_create_config ''org/model'' ''json'') = Inr ''/axolotl/configs/t1.yml''"
    by code_simp
  then show ?thesis
    unfolding example_create_config_def by (simp add: prod_eq_iff)
qed

theorem create_config_val_set_size_zero_witness:
  "create_config example_env ''t1'' ''org/model'' ''/axolotl/data/t1.json''
       (GrpoDatasetType example_reward_functions []) ''json'' ''/ck/t1/repo_temp''
       (Some ''repo'') True example_world
     = (Inr ''/axolotl/configs/t1.yml'', snd (example_create_config ''org/model'' ''json''))
   \<and> (\<exists>document.
         saved_configs (snd (example_create_config ''org/model'' ''json''))
           = saved_configs example_world @ [(''/axolotl/configs/t1.yml'', document)]
       \<and> map_of document ''val_set_size'' = Some (YInt 0))"
  using example_create_config_json
    create_config_val_set_size_zero [OF example_create_config_json]
  by blast

theorem create_config_grpo_reward_lists_witness:
  "create_config example_env ''t1'' ''org/model'' ''/axolotl/data/t1.json''
       (GrpoDatasetType example_reward_functions []) ''json'' ''/ck/t1/repo_temp''
       (Some ''repo'') True example_world
     = (Inr ''/axolotl/configs/t1.yml'', snd (example_create_config ''org/model'' ''json''))
   \<and> customize_config_keeps_reward_lists example_env
   \<and> (\<exists>document trl funcs weights.
         saved_configs (snd (example_create_config ''org/model'' ''json''))
           = saved_configs example_world @ [(''/axolotl/configs/t1.yml'', document)]
       \<and> map_of document ''trl'' = Some (YDict trl)
       \<and> map_of trl ''reward_funcs'' = Some (YList funcs)
       \<and> map_of trl ''reward_weights'' = Some (YList weights)
       \<and> length funcs = 2 \<and> length weights = 2
       \<and> funcs ! 0 = YStr ''rewards_t1.f'' \<and> weights ! 0 = YFloat 1
       \<and> funcs ! 1 = YStr ''rewards_t1.g'' \<and> weights ! 1 = YFloat (1 / 2))"
proof -
  have keeps: "customize_config_keeps_reward_lists example_env"
    by (rule example_customize_config_keeps_reward_lists)
  from create_config_grpo_reward_lists [OF example_create_config_json keeps]
  obtain document trl funcs weights where
    1: "saved_configs (snd (example_create_config ''org/model'' ''json''))
           = saved_configs example_world @ [(''/axolotl/configs/t1.yml'', document)]"
    and 2: "map_of document ''trl'' = Some (YDict trl)"
    and 3: "map_of trl ''reward_funcs'' = Some (YList funcs)"
    and 4: "map_of trl ''reward_weights'' = Some (YList weights)"
    and 5: "length funcs = length example_reward_functions"
    and 6: "length weights = length example_reward_functions"
    and 7: "\<forall>i < length example_reward_functions.
               funcs ! i = YStr (reward_module_name example_env ''t1'' @ ''.''
                 @ reward_function_name example_env i (reward_func (example_reward_functions ! i)))
             \<and> weights ! i = YFloat (reward_weight (example_reward_functions ! i))"
    by blast
  have l: "length example_reward_functions = 2"
    by (simp add: example_reward_functions_def)
  have "funcs ! 0 = YStr ''rewards_t1.f'' \<and> weights ! 0 = YFloat 1"
    using 7 [rule_format, of 0] l by (simp add: example_env_def example_reward_functions_def)
  moreover have "funcs ! 1 = YStr ''rewards_t1.g'' \<and> weights ! 1 = YFloat (1 / 2)"
    using 7 [rule_format, of 1] l by (simp add: example_env_def example_reward_functions_def)
  ultimately show ?thesis
    using example_create_config_json keeps 1 2 3 4 5 6 l by auto
qed


lemma example_create_config_padded:
  "create_config example_env ''t1'' ''org/padded'' ''/axolotl/data/t1.json''
       (GrpoDatasetType example_reward_functions []) ''json'' ''/ck/t1/repo_temp''
       (Some ''repo'') True example_world
     = (Inr ''/axolotl/configs/t1.yml'', snd (example_create_config ''org/padded'' ''json''))"
proof -
  have "fst (example_create_config ''org/padded'' ''json'') = Inr ''/axolotl/configs/t1.yml''"
    by code_simp
  then show ?thesis
    unfolding example_create_config_def by (simp add: prod_eq_iff)
qed

lemma example_before_datasets_padded:
  "config_before_datasets example_env ''t1'' ''org/padded'' ''/axolotl/data/t1.json''
       (GrpoDatasetType example_reward_functions []) ''json'' ''/ck/t1/repo_temp''
       (Some ''repo'') True example_world
     = (Inr (example_config_line_169 ''org/padded''), snd (example_before_datasets ''org/padded'' ''json''))"
proof -
  have "fst (example_before_datasets ''org/padded'' ''json'') = Inr (example_config_line_169 ''org/padded'')"
    by code_simp
  then show ?thesis
    unfolding example_before_datasets_def by (simp add: prod_eq_iff)
qed

lemma example_create_config_s3:
  "create_config example_env ''t1'' ''org/model'' ''/axolotl/data/t1.json''
       (GrpoDatasetType example_reward_functions []) ''s3'' ''/ck/t1/repo_temp''
       (Some ''repo'') True example_world
     = (Inr ''/axolotl/configs/t1.yml'', snd (example_create_config ''org/model'' ''s3''))"
proof -
  have "fst (example_create_config ''org/model'' ''s3'') = Inr ''/axolotl/configs/t1.yml''"
    by code_simp
  then show ?thesis
    unfolding example_create_config_def by (simp add: prod_eq_iff)
qed

lemma example_before_datasets_s3:
  "config_before_datasets example_env ''t1'' ''org/model'' ''/axolotl/data/t1.json''
       (GrpoDatasetType example_reward_functions []) ''s3'' ''/ck/t1/repo_temp''
       (Some ''repo'') True example_world
     = (Inr (example_config_line_169 ''org/model''), snd (example_before_datasets ''org/model'' ''s3''))"
proof -
  have "fst (example_before_datasets ''org/model'' ''s3'') = Inr (example_config_line_169 ''org/model'')"
    by code_simp
  then show ?thesis
    unfolding example_before_datasets_def by (simp add: prod_eq_iff)
qed

text \<open>
  The tokenizer of \<open>org/model\<close> has an end-of-sequence token and no pad token, that of
  \<open>org/padded\<close> has both.
\<close>

theorem create_config_pad_token_witness:
  "create_config example_env ''t1'' ''org/model'' ''/axolotl/data/t1.json''
       (GrpoDatasetType example_reward_functions []) ''json'' ''/ck/t1/repo_temp''
       (Some ''repo'') True example_world
     = (Inr ''/axolotl/configs/t1.yml'', snd (example_create_config ''org/model'' ''json''))
   \<and> customize_config_keeps example_env ''special_tokens''
   \<and> (\<exists>document.
         saved_configs (snd (example_create_config ''org/model'' ''json''))
           = saved_configs example_world @ [(''/axolotl/configs/t1.yml'', document)]
       \<and> map_of document ''special_tokens'' = Some (YDict [(''pad_token'', YStr ''</s>'')]))
   \<and> (\<exists>document.
         saved_configs (snd (example_create_config ''org/padded'' ''json''))
           = saved_configs example_world @ [(''/axolotl/configs/t1.yml'', document)]
       \<and> map_of document ''special_tokens'' = None)"
proof -
  have keeps: "customize_config_keeps example_env ''special_tokens''"
    by (simp add: example_customize_config_keeps)
  have tok: "AutoTokenizer_from_pretrained example_env (get_text_base_model_path example_env ''org/model'')
               = Inr \<lparr>pad_token_id = None, eos_token_id = Some 2, eos_token = Some ''</s>''\<rparr>"
    by (simp add: example_env_def)
  have tok': "AutoTokenizer_from_pretrained example_env (get_text_base_model_path example_env ''org/padded'')
               = Inr \<lparr>pad_token_id = Some 0, eos_token_id = Some 2, eos_token = Some ''</s>''\<rparr>"
    by (simp add: example_env_def)
  have "\<exists>document.
         saved_configs (snd (example_create_config ''org/model'' ''json''))
           = saved_configs example_world @ [(''/axolotl/configs/t1.yml'', document)]
       \<and> map_of document ''special_tokens'' = Some (YDict [(''pad_token'', YStr ''</s>'')])"
    using create_config_pad_token [OF example_create_config_json example_before_datasets_json tok keeps]
    by (simp add: yaml_of_optional_def)
  moreover have "\<exists>document.
         saved_configs (snd (example_create_config ''org/padded'' ''json''))
           = saved_configs example_world @ [(''/axolotl/configs/t1.yml'', document)]
       \<and> map_of document ''special_tokens'' = None"
    using create_config_pad_token [OF example_create_config_padded example_before_datasets_padded tok' keeps]
    by (simp add: example_config_line_169_def)
  ultimately show ?thesis
    using example_create_config_json keeps by blast
qed

theorem create_config_rewrites_every_entry_unless_hf_witness:
  "create_config example_env ''t1'' ''org/model'' ''/axolotl/data/t1.json''
       (GrpoDatasetType example_reward_functions []) ''s3'' ''/ck/t1/repo_temp''
       (Some ''repo'') True example_world
     = (Inr ''/axolotl/configs/t1.yml'', snd (example_create_config ''org/model'' ''s3''))
   \<and> ''s3'' \<noteq> ''hf''
   \<and> customize_config_keeps example_env ''datasets''
   \<and> (\<exists>document kvs'.
         saved_configs (snd (example_create_config ''org/model'' ''s3''))
           = saved_configs example_world @ [(''/axolotl/configs/t1.yml'', document)]
       \<and> map_of document ''datasets'' = Some (YList [YDict kvs'])
       \<and> map_of kvs' ''ds_type'' = Some (YStr ''json'')
       \<and> map_of kvs' ''data_files'' = Some (YList [YStr ''t1.json''])
       \<and> map_of kvs' ''path'' = Some (YStr ''/axolotl/data''))"
proof -
  have keeps: "customize_config_keeps example_env ''datasets''"
    by (simp add: example_customize_config_keeps)
  have fmt: "''s3'' \<noteq> ''hf''" by simp
  have entries: "map_of (example_config_line_169 ''org/model'') ''datasets''
                   = Some (YList [YDict [(''path'', YStr ''/axolotl/data/t1.json'')]])"
    by (simp add: example_config_line_169_def)
  from create_config_rewrites_every_entry_unless_hf
         [OF example_create_config_s3 example_before_datasets_s3 entries fmt keeps]
  obtain document entries' where
    1: "saved_configs (snd (example_create_config ''org/model'' ''s3''))
           = saved_configs example_world @ [(''/axolotl/configs/t1.yml'', document)]"
    and 2: "map_of document ''datasets'' = Some (YList entries')"
    and 3: "length entries' = 1"
    and 4: "\<exists>kvs kvs'.
               [YDict [(''path'', YStr ''/axolotl/data/t1.json'')]] ! 0 = YDict kvs
             \<and> entries' ! 0 = YDict kvs'
             \<and> map_of kvs' ''ds_type'' = Some (YStr ''json'')
             \<and> map_of kvs' ''data_files'' = Some (YList [YStr (os_path_basename ''/axolotl/data/t1.json'')])
             \<and> (if ''path'' \<in> fst ` set kvs
                then \<exists>data_dir. map_of (AXOLOTL_DIRECTORIES example_env) ''data'' = Some data_dir
                               \<and> map_of kvs' ''path'' = Some (YStr data_dir)
                else map_of kvs' ''path'' = None)"
    by auto
  from 4 obtain kvs' where
    5: "entries' ! 0 = YDict kvs'"
    and 6: "map_of kvs' ''ds_type'' = Some (YStr ''json'')"
    and 7: "map_of kvs' ''data_files'' = Some (YList [YStr (os_path_basename ''/axolotl/data/t1.json'')])"
    and 8: "\<exists>data_dir. map_of (AXOLOTL_DIRECTORIES example_env) ''data'' = Some data_dir
                               \<and> map_of kvs' ''path'' = Some (YStr data_dir)"
    by auto
  have 9: "entries' = [YDict kvs']"
    using 3 5 by (cases entries') auto
  have 10: "os_path_basename ''/axolotl/data/t1.json'' = ''t1.json''"
    by (simp add: os_path_basename_def)
  have 11: "map_of kvs' ''path'' = Some (YStr ''/axolotl/data'')"
    using 8 by (simp add: example_env_def)
  show ?thesis
    using example_create_config_s3 fmt keeps 1 2 6 7 9 10 11 by auto
qed

theorem create_config_csv_json_entries_witness:
  "create_config example_env ''t1'' ''org/model'' ''/axolotl/data/t1.json''
       (GrpoDatasetType example_reward_functions []) ''json'' ''/ck/t1/repo_temp''
       (Some ''repo'') True example_world
     = (Inr ''/axolotl/configs/t1.yml'', snd (example_create_config ''org/model'' ''json''))
   \<and> customize_config_keeps example_env ''datasets''
   \<and> (\<exists>document kvs'.
         saved_configs (snd (example_create_config ''org/model'' ''json''))
           = saved_configs example_world @ [(''/axolotl/configs/t1.yml'', document)]
       \<and> map_of document ''datasets'' = Some (YList [YDict kvs'])
       \<and> map_of kvs' ''data_files'' = Some (YList [YStr ''t1.json''])
       \<and> map_of kvs' ''path'' = Some (YStr ''/axolotl/data''))"
proof -
  have keeps: "customize_config_keeps example_env ''datasets''"
    by (simp add: example_customize_config_keeps)
  have fmt: "''json'' = ''csv'' \<or> ''json'' = ''json''" by simp
  have entries: "map_of (example_config_line_169 ''org/model'') ''datasets''
                   = Some (YList [YDict [(''path'', YStr ''/axolotl/data/t1.json'')]])"
    by (simp add: example_config_line_169_def)
  from create_config_csv_json_entries
         [OF example_create_config_json example_before_datasets_json entries fmt keeps]
  obtain document entries' where
    1: "saved_configs (snd (example_create_config ''org/model'' ''json''))
           = saved_configs example_world @ [(''/axolotl/configs/t1.yml'', document)]"
    and 2: "map_of document ''datasets'' = Some (YList entries')"
    and 3: "length entries' = 1"
    and 4: "\<exists>kvs kvs'.
               [YDict [(''path'', YStr ''/axolotl/data/t1.json'')]] ! 0 = YDict kvs
             \<and> entries' ! 0 = YDict kvs'
             \<and> map_of kvs' ''data_files'' = Some (YList [YStr (os_path_basename ''/axolotl/data/t1.json'')])
             \<and> (if ''path'' \<in> fst ` set kvs
                then \<exists>data_dir. map_of (AXOLOTL_DIRECTORIES example_env) ''data'' = Some data_dir
                               \<and> map_of kvs' ''path'' = Some (YStr data_dir)
                else map_of kvs' ''path'' = None)"
    by auto
  from 4 obtain kvs' where
    5: "entries' ! 0 = YDict kvs'"
    and 7: "map_of kvs' ''data_files'' = Some (YList [YStr (os_path_basename ''/axolotl/data/t1.json'')])"
    and 8: "\<exists>data_dir. map_of (AXOLOTL_DIRECTORIES example_env) ''data'' = Some data_dir
                               \<and> map_of kvs' ''path'' = Some (YStr data_dir)"
    by auto
  have 9: "entries' = [YDict kvs']"
    using 3 5 by (cases entries') auto
  have 10: "os_path_basename ''/axolotl/data/t1.json'' = ''t1.json''"
    by (simp add: os_path_basename_def)
  have 11: "map_of kvs' ''path'' = Some (YStr ''/axolotl/data'')"
    using 8 by (simp add: example_env_def)
  show ?thesis
    using example_create_config_json keeps 1 2 7 9 10 11 by auto
qed

text \<open>
  A dataset entry that comes without a \<open>path\<close> field, on the format \<open>json\<close>: the persisted
  entry has its file list and no \<open>path\<close>, so its path is not the local data directory.
\<close>

theorem create_config_json_entry_without_path:
  "fst (create_config example_env_entry_without_path ''t1'' ''org/model''
          ''/axolotl/data/t1.json'' (GrpoDatasetType example_reward_functions []) ''json''
          ''/ck/t1/repo_temp'' (Some ''repo'') True example_world)
     = Inr ''/axolotl/configs/t1.yml''
   \<and> saved_values ''datasets''
        (snd (create_config example_env_entry_without_path ''t1'' ''org/model''
                ''/axolotl/data/t1.json'' (GrpoDatasetType example_reward_functions []) ''json''
                ''/ck/t1/repo_temp'' (Some ''repo'') True example_world))
     = [Some (YList [YDict [(''name'', YStr ''/axolotl/data/t1.json''),
                            (''ds_type'', YStr ''json''),
                            (''data_files'', YList [YStr ''t1.json''])]])]"
  by code_simp

text \<open>
  A base template that sets a pad token, and a tokenizer that has both tokens: the
  persisted document carries the template's pad token.
\<close>

theorem create_config_keeps_template_pad_token:
  "pad_token_id (projr (AutoTokenizer_from_pretrained example_env_template_pad
                          (get_text_base_model_path example_env_template_pad ''org/padded'')))
     = Some 0
   \<and> eos_token_id (projr (AutoTokenizer_from_pretrained example_env_template_pad
                            (get_text_base_model_path example_env_template_pad ''org/padded'')))
     = Some 2
   \<and> fst (create_config example_env_template_pad ''t1'' ''org/padded''
            ''/axolotl/data/t1.json'' (GrpoDatasetType example_reward_functions []) ''json''
            ''/ck/t1/repo_temp'' (Some ''repo'') True example_world)
     = Inr ''/axolotl/configs/t1.yml''
   \<and> saved_values ''special_tokens''
        (snd (create_config example_env_template_pad ''t1'' ''org/padded''
                ''/axolotl/data/t1.json'' (GrpoDatasetType example_reward_functions []) ''json''
                ''/ck/t1/repo_temp'' (Some ''repo'') True example_world))
     = [Some (YDict [(''pad_token'', YStr ''<pad>'')])]"
  by code_simp

lemma example_parse_arguments:
  "parse_arguments example_env example_argv empty_namespace [] = Parsed example_args"
  by code_simp

lemma example_main_rank_0:
  "main example_env \<lparr>LOCAL_RANK = 0, clock_now = 1762183800000000\<rparr> example_argv example_world
     = (Inr [[GRPOCustomEvalSaveCallback (WhenToEvalHandler ''2025-11-03 17:30:00'' 5)
                ''/ck/t1/repo'' ''/ck/t1/repo_temp'' ''org/model'']],
        snd (example_main 0 1762183800000000 example_argv))"
proof -
  have "fst (example_main 0 1762183800000000 example_argv)
          = Inr [[GRPOCustomEvalSaveCallback (WhenToEvalHandler ''2025-11-03 17:30:00'' 5)
                    ''/ck/t1/repo'' ''/ck/t1/repo_temp'' ''org/model'']]"
    by code_simp
  then show ?thesis
    unfolding example_main_def by (simp add: prod_eq_iff)
qed

theorem main_callback_variant_by_original_task_type_witness:
  "main example_env \<lparr>LOCAL_RANK = 0, clock_now = 1762183800000000\<rparr> example_argv example_world
     = (Inr [[GRPOCustomEvalSaveCallback (WhenToEvalHandler ''2025-11-03 17:30:00'' 5)
                ''/ck/t1/repo'' ''/ck/t1/repo_temp'' ''org/model'']],
        snd (example_main 0 1762183800000000 example_argv))
   \<and> parse_arguments example_env example_argv empty_namespace [] = Parsed example_args
   \<and> args_task_type example_args = ''GrpoTask''
   \<and> (\<exists>config_path w_cli constructions.
         do_cli example_env config_path w_cli
           = (Inr constructions, snd (example_main 0 1762183800000000 example_argv))
       \<and> length constructions = 1
       \<and> (\<exists>cb. [GRPOCustomEvalSaveCallback (WhenToEvalHandler ''2025-11-03 17:30:00'' 5)
                   ''/ck/t1/repo'' ''/ck/t1/repo_temp'' ''org/model'']
                 = (case constructions ! 0 of None \<Rightarrow> [] | Some given \<Rightarrow> given) @ [cb]
              \<and> is_GRPO_callback cb \<and> \<not> is_standard_callback cb))"
proof -
  from main_callback_variant_by_original_task_type [OF example_main_rank_0]
  obtain a config_path w_cli constructions where
    0: "parse_arguments example_env example_argv empty_namespace [] = Parsed a"
    and 1: "do_cli example_env config_path w_cli
          = (Inr constructions, snd (example_main 0 1762183800000000 example_argv))"
    and 2: "1 = length constructions"
    and 3: "\<forall>i < length constructions. \<exists>cb.
               [[GRPOCustomEvalSaveCallback (WhenToEvalHandler ''2025-11-03 17:30:00'' 5)
                   ''/ck/t1/repo'' ''/ck/t1/repo_temp'' ''org/model'']] ! i
                 = (case constructions ! i of None \<Rightarrow> [] | Some given \<Rightarrow> given) @ [cb]
             \<and> (is_GRPO_callback cb \<longleftrightarrow> args_task_type a = ''GrpoTask'')
             \<and> (is_standard_callback cb \<longleftrightarrow> args_task_type a \<noteq> ''GrpoTask'')"
    by auto
  have a: "a = example_args" using 0 example_parse_arguments by simp
  have t: "args_task_type example_args = ''GrpoTask''" by (simp add: example_args_def)
  have "\<exists>cb. [GRPOCustomEvalSaveCallback (WhenToEvalHandler ''2025-11-03 17:30:00'' 5)
                   ''/ck/t1/repo'' ''/ck/t1/repo_temp'' ''org/model'']
                 = (case constructions ! 0 of None \<Rightarrow> [] | Some given \<Rightarrow> given) @ [cb]
              \<and> is_GRPO_callback cb \<and> \<not> is_standard_callback cb"
    using 3 [rule_format, of 0] 2 a t by simp
  then show ?thesis
    using example_main_rank_0 example_parse_arguments t 1 2 by auto
qed

theorem main_deadline_per_process_witness:
  "main example_env \<lparr>LOCAL_RANK = 0, clock_now = 1762183800000000\<rparr> example_argv example_world
     = (Inr [[GRPOCustomEvalSaveCallback (WhenToEvalHandler ''2025-11-03 17:30:00'' 5)
                ''/ck/t1/repo'' ''/ck/t1/repo_temp'' ''org/model'']],
        snd (example_main 0 1762183800000000 example_argv))
   \<and> parse_arguments example_env example_argv empty_namespace [] = Parsed example_args
   \<and> (\<exists>config_path w_cli constructions.
         compute_end_time example_env \<lparr>LOCAL_RANK = 0, clock_now = 1762183800000000\<rparr> example_args
           = Inr ''2025-11-03 17:30:00''
       \<and> do_cli example_env config_path w_cli
           = (Inr constructions, snd (example_main 0 1762183800000000 example_argv))
       \<and> last (stdout w_cli) = ''end_time:  2025-11-03 17:30:00''
       \<and> length constructions = 1)"
proof -
  have e: "compute_end_time example_env \<lparr>LOCAL_RANK = 0, clock_now = 1762183800000000\<rparr> example_args
             = Inr ''2025-11-03 17:30:00''"
    by code_simp
  from main_deadline_per_process [OF example_main_rank_0]
  obtain a deadline config_path w_cli constructions where
    0: "parse_arguments example_env example_argv empty_namespace [] = Parsed a"
    and 1: "compute_end_time example_env \<lparr>LOCAL_RANK = 0, clock_now = 1762183800000000\<rparr> a
          = Inr deadline"
    and 2: "do_cli example_env config_path w_cli
          = (Inr constructions, snd (example_main 0 1762183800000000 example_argv))"
    and 3: "last (stdout w_cli) = ''end_time:  '' @ deadline"
    and 4: "1 = length constructions"
    by auto
  have "a = example_args" using 0 example_parse_arguments by simp
  then have "deadline = ''2025-11-03 17:30:00''" using 1 e by simp
  then show ?thesis
    using example_main_rank_0 example_parse_arguments e 2 3 4 by auto
qed

text \<open>
  Two processes of one run, ranks 0 and 1, whose clocks are read one second apart: the
  supervisors they install hold different deadlines.
\<close>

theorem main_deadline_differs_between_processes:
  "fst (example_main 0 1762183800000000 example_argv)
     = Inr [[GRPOCustomEvalSaveCallback (WhenToEvalHandler ''2025-11-03 17:30:00'' 5)
               ''/ck/t1/repo'' ''/ck/t1/repo_temp'' ''org/model'']]
   \<and> fst (example_main 1 1762183801000000 example_argv)
     = Inr [[GRPOCustomEvalSaveCallback (WhenToEvalHandler ''2025-11-03 17:30:01'' 5)
               ''/ck/t1/repo'' ''/ck/t1/repo_temp'' ''org/model'']]"
  by code_simp



end
